theory Spec2Isabelle
  imports Main
begin

section \<open>Syntax trees handed to the evaluator (gclient_eval.py)\<close>

text \<open>
  The evaluator dispatches on the run-time class of nodes of the host language's syntax
  tree. Every node carries an optional line number, read by the code as
  \<^verbatim>\<open>getattr(node, 'lineno', '<unknown>')\<close>; \<open>None\<close> stands for \<^verbatim>\<open>'<unknown>'\<close>.
  Node classes the evaluator has no branch for are collected in \<open>OtherExpr\<close> and
  \<open>OtherStmt\<close>, tagged with the class name.
\<close>

type_synonym lineno = "nat option"

datatype operator = Add_op | Mod_op | Other_op string

datatype boolop = Or_op | And_op

datatype unaryop = Not_op | Other_unaryop string

datatype expr =
    Str lineno string
  | Tuple lineno "expr list"
  | List lineno "expr list"
  | Dict lineno "expr list" "expr list"
  | Name lineno string
  | Call lineno expr "expr list" "(string \<times> expr) list" "expr option" "expr option"
  | BinOp lineno expr operator expr
  | BoolOp lineno boolop "expr list"
  | UnaryOp lineno unaryop expr
  | OtherExpr lineno string

datatype stmt =
    Assign lineno "expr list" expr
  | OtherStmt lineno string

datatype ast_node =
    Module "stmt list"
  | Expression expr
  | Expr_node expr
  | Stmt_node stmt

fun expr_lineno :: "expr \<Rightarrow> lineno" where
  "expr_lineno (Str l _) = l"
| "expr_lineno (Tuple l _) = l"
| "expr_lineno (List l _) = l"
| "expr_lineno (Dict l _ _) = l"
| "expr_lineno (Name l _) = l"
| "expr_lineno (Call l _ _ _ _ _) = l"
| "expr_lineno (BinOp l _ _ _) = l"
| "expr_lineno (BoolOp l _ _) = l"
| "expr_lineno (UnaryOp l _ _) = l"
| "expr_lineno (OtherExpr l _) = l"

fun stmt_lineno :: "stmt \<Rightarrow> lineno" where
  "stmt_lineno (Assign l _ _) = l"
| "stmt_lineno (OtherStmt l _) = l"

text \<open>A module node has no line number; the wrapper \<open>Expression\<close> has none either.\<close>

fun node_lineno :: "ast_node \<Rightarrow> lineno" where
  "node_lineno (Module _) = None"
| "node_lineno (Expression _) = None"
| "node_lineno (Expr_node e) = expr_lineno e"
| "node_lineno (Stmt_node s) = stmt_lineno s"

section \<open>Values\<close>

text \<open>
  The run-time values an evaluation can produce. Integers arise from arithmetic on
  booleans and from function-table callables. A dictionary is an association list in
  insertion order whose keys are pairwise different under the host language's key equality.
\<close>

datatype val =
    VNone
  | VBool bool
  | VInt int
  | VStr string
  | VList "val list"
  | VTuple "val list"
  | VDict "(val \<times> val) list"

text \<open>Booleans are integers in the host language: \<open>True == 1\<close> and \<open>False == 0\<close>.\<close>

fun as_int :: "val \<Rightarrow> int option" where
  "as_int (VInt i) = Some i"
| "as_int (VBool b) = Some (if b then 1 else 0)"
| "as_int _ = None"

fun hashable :: "val \<Rightarrow> bool" where
  "hashable (VList _) = False"
| "hashable (VDict _) = False"
| "hashable (VTuple vs) = list_all hashable vs"
| "hashable _ = True"

text \<open>Equality of hashable values, as dictionary lookup sees it.\<close>

fun key_norm :: "val \<Rightarrow> val" where
  "key_norm (VBool b) = VInt (if b then 1 else 0)"
| "key_norm (VTuple vs) = VTuple (map key_norm vs)"
| "key_norm v = v"

definition key_eq :: "val \<Rightarrow> val \<Rightarrow> bool" where
  "key_eq a b = (key_norm a = key_norm b)"

fun dict_get :: "(val \<times> val) list \<Rightarrow> val \<Rightarrow> val option" where
  "dict_get [] k = None"
| "dict_get ((k', v') # d) k = (if key_eq k' k then Some v' else dict_get d k)"

text \<open>\<^verbatim>\<open>d[k] = v\<close>: an existing key keeps its place (and its key object), a new one is appended.\<close>

fun dict_set :: "(val \<times> val) list \<Rightarrow> val \<Rightarrow> val \<Rightarrow> (val \<times> val) list" where
  "dict_set [] k v = [(k, v)]"
| "dict_set ((k', v') # d) k v =
     (if key_eq k' k then (k', v) # d else (k', v') # dict_set d k v)"

definition dict_update :: "(val \<times> val) list \<Rightarrow> (val \<times> val) list \<Rightarrow> (val \<times> val) list" where
  "dict_update d u = foldl (\<lambda>acc (k, v). dict_set acc k v) d u"

fun truthy :: "val \<Rightarrow> bool" where
  "truthy VNone = False"
| "truthy (VBool b) = b"
| "truthy (VInt i) = (i \<noteq> 0)"
| "truthy (VStr s) = (s \<noteq> [])"
| "truthy (VList vs) = (vs \<noteq> [])"
| "truthy (VTuple vs) = (vs \<noteq> [])"
| "truthy (VDict d) = (d \<noteq> [])"

section \<open>Schemas\<close>

text \<open>
  The forms the schema tables of the source are written in: the types \<open>basestring\<close> and
  \<open>bool\<close>, the literal \<open>None\<close>, \<open>schema.Optional(...)\<close> and \<open>schema.Or(...)\<close>, list, tuple
  and dictionary literals. A dictionary key is a required literal, an optional literal
  or \<open>schema.Optional(basestring)\<close>.
\<close>

datatype skey = Required string | Optional string | Optional_basestring

datatype schema =
    S_basestring
  | S_bool
  | S_None
  | S_Optional schema
  | S_Or "schema list"
  | S_list "schema list"
  | S_tuple "schema list"
  | S_dict "(skey \<times> schema) list"

text \<open>A mismatch: the path from the root, and what was expected and found there.\<close>

datatype mismatch =
    Mismatch "val list" schema val
  | UnknownKey "val list" val
  | MissingKey "val list" string

section \<open>Failures\<close>

text \<open>
  \<open>ValueError\<close> is what the evaluator raises itself: a description, the file name and the
  line. The other constructors are the host language's own exceptions, which the
  evaluator lets through: a missing dictionary key, an operand of the wrong type, a
  division by zero, a missing attribute, an index out of range, and \<open>Raised\<close> for an
  exception raised by a function-table callable or by string formatting.
  \<open>CheckFailure\<close> carries the attributes \<open>path\<close>, \<open>exp\<close> and \<open>act\<close> of the exception class
  of that name (its message is built from the same three and the file path).
\<close>

datatype descr =
    InvalidName string "(val \<times> val) list"
  | CallFuncNotName
  | CallNotRegularArgs
  | OrArity
  | AndArity
  | UnexpectedNode ast_node
  | AssignTargetCount
  | AssignTargetNotName
  | OverridesVar string

datatype item = KeySet "val list" | Whole val

datatype error =
    ValueError descr string lineno
  | KeyError val
  | TypeError
  | ZeroDivisionError
  | AttributeError
  | IndexError
  | Raised string
  | CheckFailure string item item
  | SchemaError "mismatch list"

section \<open>The expression evaluator: \<open>_gclient_eval\<close>\<close>

definition allowed_names :: "(val \<times> val) list" where
  "allowed_names =
     [(VStr ''None'', VNone), (VStr ''True'', VBool True), (VStr ''False'', VBool False)]"

text \<open>
  The two binary operators. String formatting (\<open>%\<close> with a string on the left) belongs to
  the host language's runtime and is a parameter \<open>fmt\<close>, which returns the formatted
  string or the description of the exception it raises.
\<close>

type_synonym formatter = "string \<Rightarrow> val \<Rightarrow> string + string"

type_synonym callable = "val list \<Rightarrow> string + val"

fun py_add :: "val \<Rightarrow> val \<Rightarrow> error + val" where
  "py_add (VStr a) (VStr b) = Inr (VStr (a @ b))"
| "py_add (VList a) (VList b) = Inr (VList (a @ b))"
| "py_add (VTuple a) (VTuple b) = Inr (VTuple (a @ b))"
| "py_add a b =
     (case (as_int a, as_int b) of
        (Some i, Some j) \<Rightarrow> Inr (VInt (i + j))
      | _ \<Rightarrow> Inl TypeError)"

fun py_mod :: "formatter \<Rightarrow> val \<Rightarrow> val \<Rightarrow> error + val" where
  "py_mod fmt (VStr s) b =
     (case fmt s b of Inl m \<Rightarrow> Inl (Raised m) | Inr r \<Rightarrow> Inr (VStr r))"
| "py_mod fmt a b =
     (case (as_int a, as_int b) of
        (Some i, Some j) \<Rightarrow> if j = 0 then Inl ZeroDivisionError else Inr (VInt (i mod j))
      | _ \<Rightarrow> Inl TypeError)"

text \<open>
  \<open>convert fmt global_scope filename expose_vars node vars_dict\<close> is the inner function
  \<open>_convert\<close>. Each call works on its own copy of \<open>vars_dict\<close>, updated with the three
  constant names; only the dictionary branch writes to that copy (\<open>convert_dict\<close> is its
  loop over \<open>zip(node.keys, node.values)\<close>, carrying \<open>vars_dict\<close> and \<open>result\<close>).
  \<open>convert_list\<close> is \<open>map(vars_convert, ...)\<close>, which stops at the first failure.
\<close>

function (sequential) convert :: "formatter \<Rightarrow> (string \<rightharpoonup> callable) \<Rightarrow> string \<Rightarrow> bool \<Rightarrow> expr \<Rightarrow>
                  (val \<times> val) list \<Rightarrow> error + val"
and convert_list :: "formatter \<Rightarrow> (string \<rightharpoonup> callable) \<Rightarrow> string \<Rightarrow> bool \<Rightarrow> expr list \<Rightarrow>
                  (val \<times> val) list \<Rightarrow> error + val list"
and convert_dict :: "formatter \<Rightarrow> (string \<rightharpoonup> callable) \<Rightarrow> string \<Rightarrow> bool \<Rightarrow> expr list \<Rightarrow>
                  expr list \<Rightarrow> (val \<times> val) list \<Rightarrow> (val \<times> val) list \<Rightarrow> error + val"
where
  "convert fmt gs fn ex (Str l s) vd = Inr (VStr s)"
| "convert fmt gs fn ex (Tuple l elts) vd =
     (case convert_list fmt gs fn ex elts (dict_update vd allowed_names) of
        Inl e \<Rightarrow> Inl e | Inr vs \<Rightarrow> Inr (VTuple vs))"
| "convert fmt gs fn ex (List l elts) vd =
     (case convert_list fmt gs fn ex elts (dict_update vd allowed_names) of
        Inl e \<Rightarrow> Inl e | Inr vs \<Rightarrow> Inr (VList vs))"
| "convert fmt gs fn ex (Dict l keys vals) vd =
     convert_dict fmt gs fn ex keys vals (dict_update vd allowed_names) []"
| "convert fmt gs fn ex (Name l ident) vd =
     (case dict_get (dict_update vd allowed_names) (VStr ident) of
        None \<Rightarrow> Inl (ValueError (InvalidName ident (dict_update vd allowed_names)) fn l)
      | Some v \<Rightarrow> Inr v)"
| "convert fmt gs fn ex (Call l func args keywords starargs kwargs) vd =
     (case func of
        Name l' ident \<Rightarrow>
          if keywords \<noteq> [] \<or> starargs \<noteq> None \<or> kwargs \<noteq> None
          then Inl (ValueError CallNotRegularArgs fn l)
          else (case convert_list fmt gs fn ex args (dict_update vd allowed_names) of
                  Inl e \<Rightarrow> Inl e
                | Inr vs \<Rightarrow>
                    (case gs ident of
                       None \<Rightarrow> Inl (KeyError (VStr ident))
                     | Some f \<Rightarrow> (case f vs of Inl m \<Rightarrow> Inl (Raised m) | Inr r \<Rightarrow> Inr r)))
      | _ \<Rightarrow> Inl (ValueError CallFuncNotName fn l))"
| "convert fmt gs fn ex (BinOp l left op right) vd =
     (case op of
        Add_op \<Rightarrow>
          (case convert fmt gs fn ex left (dict_update vd allowed_names) of
             Inl e \<Rightarrow> Inl e
           | Inr a \<Rightarrow>
               (case convert fmt gs fn ex right (dict_update vd allowed_names) of
                  Inl e \<Rightarrow> Inl e
                | Inr b \<Rightarrow> py_add a b))
      | Mod_op \<Rightarrow>
          (case convert fmt gs fn ex left (dict_update vd allowed_names) of
             Inl e \<Rightarrow> Inl e
           | Inr a \<Rightarrow>
               (case convert fmt gs fn ex right (dict_update vd allowed_names) of
                  Inl e \<Rightarrow> Inl e
                | Inr b \<Rightarrow> py_mod fmt a b))
      | Other_op n \<Rightarrow>
          Inl (ValueError (UnexpectedNode (Expr_node (BinOp l left op right))) fn l))"
| "convert fmt gs fn ex (BoolOp l op operands) vd =
     (case op of
        Or_op \<Rightarrow>
          if length operands \<noteq> 2 then Inl (ValueError OrArity fn l)
          else (case convert fmt gs fn ex (operands ! 0) (dict_update vd allowed_names) of
                  Inl e \<Rightarrow> Inl e
                | Inr a \<Rightarrow>
                    if truthy a then Inr a
                    else convert fmt gs fn ex (operands ! 1) (dict_update vd allowed_names))
      | And_op \<Rightarrow>
          if length operands \<noteq> 2 then Inl (ValueError AndArity fn l)
          else (case convert fmt gs fn ex (operands ! 0) (dict_update vd allowed_names) of
                  Inl e \<Rightarrow> Inl e
                | Inr a \<Rightarrow>
                    if truthy a
                    then convert fmt gs fn ex (operands ! 1) (dict_update vd allowed_names)
                    else Inr a))"
| "convert fmt gs fn ex (UnaryOp l op operand) vd =
     (case op of
        Not_op \<Rightarrow>
          (case convert fmt gs fn ex operand (dict_update vd allowed_names) of
             Inl e \<Rightarrow> Inl e
           | Inr a \<Rightarrow> Inr (VBool (\<not> truthy a)))
      | Other_unaryop n \<Rightarrow>
          Inl (ValueError (UnexpectedNode (Expr_node (UnaryOp l op operand))) fn l))"
| "convert fmt gs fn ex (OtherExpr l kind) vd =
     Inl (ValueError (UnexpectedNode (Expr_node (OtherExpr l kind))) fn l)"
| "convert_list fmt gs fn ex [] vd = Inr []"
| "convert_list fmt gs fn ex (e # es) vd =
     (case convert fmt gs fn ex e vd of
        Inl err \<Rightarrow> Inl err
      | Inr v \<Rightarrow>
          (case convert_list fmt gs fn ex es vd of
             Inl err \<Rightarrow> Inl err
           | Inr vs \<Rightarrow> Inr (v # vs)))"
| "convert_dict fmt gs fn ex (k # ks) (v # vs) vd result =
     (case convert fmt gs fn ex k vd of
        Inl err \<Rightarrow> Inl err
      | Inr c_k \<Rightarrow>
          (case convert fmt gs fn ex v vd of
             Inl err \<Rightarrow> Inl err
           | Inr c_v \<Rightarrow>
               if \<not> hashable c_k then Inl TypeError
               else convert_dict fmt gs fn ex ks vs
                      (if ex then dict_set vd c_k c_v else vd) (dict_set result c_k c_v)))"
| "convert_dict fmt gs fn ex [] vs vd result = Inr (VDict result)"
| "convert_dict fmt gs fn ex ks [] vd result = Inr (VDict result)"
  by pat_completeness auto

text \<open>Every recursive call is on a strict subtree of the node at hand.\<close>

termination
  apply (relation "measure (\<lambda>x. case x of
      Inl (fmt, gs, fn, ex, e, vd) \<Rightarrow> size e
    | Inr (Inl (fmt, gs, fn, ex, es, vd)) \<Rightarrow> size_list size es
    | Inr (Inr (fmt, gs, fn, ex, ks, vs, vd, r)) \<Rightarrow> size_list size ks + size_list size vs)")
  apply (auto simp: numeral_2_eq_2 length_Suc_conv)
  done

text \<open>
  \<open>_gclient_eval\<close> unwraps an \<open>Expression\<close> node and converts the node with no variables. A
  node that is no expression falls into the last branch of \<open>_convert\<close>. (Parsing a string
  argument is the host language's parser and is outside this development.)
\<close>

fun gclient_eval :: "formatter \<Rightarrow> ast_node \<Rightarrow> (string \<rightharpoonup> callable) \<Rightarrow> string \<Rightarrow> bool \<Rightarrow>
                       error + val" where
  "gclient_eval fmt (Expression e) gs fn ex = convert fmt gs fn ex e []"
| "gclient_eval fmt (Expr_node e) gs fn ex = convert fmt gs fn ex e []"
| "gclient_eval fmt n gs fn ex = Inl (ValueError (UnexpectedNode n) fn (node_lineno n))"

section \<open>The statement executor: \<open>_gclient_exec\<close>\<close>

type_synonym scope = "(string \<times> val) list"

text \<open>\<open>_visit_in_module\<close>, with \<open>result_scope\<close> passed in and returned.\<close>

fun visit_in_module :: "formatter \<Rightarrow> (string \<rightharpoonup> callable) \<Rightarrow> string \<Rightarrow> stmt \<Rightarrow> scope \<Rightarrow>
                          error + scope" where
  "visit_in_module fmt gs fn (Assign l targets value) result_scope =
     (if length targets \<noteq> 1 then Inl (ValueError AssignTargetCount fn l)
      else (case targets ! 0 of
              Name l' ident \<Rightarrow>
                (case gclient_eval fmt (Expr_node value) gs fn (ident = ''vars'') of
                   Inl e \<Rightarrow> Inl e
                 | Inr v \<Rightarrow>
                     if map_of result_scope ident \<noteq> None
                     then Inl (ValueError (OverridesVar ident) fn l)
                     else Inr (result_scope @ [(ident, v)]))
            | _ \<Rightarrow> Inl (ValueError AssignTargetNotName fn l)))"
| "visit_in_module fmt gs fn (OtherStmt l kind) result_scope =
     Inl (ValueError (UnexpectedNode (Stmt_node (OtherStmt l kind))) fn l)"

fun exec_body :: "formatter \<Rightarrow> (string \<rightharpoonup> callable) \<Rightarrow> string \<Rightarrow> stmt list \<Rightarrow> scope \<Rightarrow>
                    error + scope" where
  "exec_body fmt gs fn [] result_scope = Inr result_scope"
| "exec_body fmt gs fn (s # ss) result_scope =
     (case visit_in_module fmt gs fn s result_scope of
        Inl e \<Rightarrow> Inl e
      | Inr result_scope' \<Rightarrow> exec_body fmt gs fn ss result_scope')"

fun gclient_exec :: "formatter \<Rightarrow> ast_node \<Rightarrow> (string \<rightharpoonup> callable) \<Rightarrow> string \<Rightarrow> error + scope" where
  "gclient_exec fmt (Module body) gs fn = exec_body fmt gs fn body []"
| "gclient_exec fmt (Expression e) gs fn =
     Inl (ValueError (UnexpectedNode (Expr_node e)) fn (expr_lineno e))"
| "gclient_exec fmt n gs fn = Inl (ValueError (UnexpectedNode n) fn (node_lineno n))"

section \<open>The consistency checker: \<open>Check\<close>\<close>

text \<open>The host language's \<open>==\<close>, \<open>len\<close> and indexing, on the values above.\<close>

fun py_eq :: "val \<Rightarrow> val \<Rightarrow> bool" where
  "py_eq VNone b = (b = VNone)"
| "py_eq (VStr s) b = (b = VStr s)"
| "py_eq (VBool x) b = (as_int b = Some (if x then 1 else 0))"
| "py_eq (VInt i) b = (as_int b = Some i)"
| "py_eq (VTuple xs) b = (case b of VTuple ys \<Rightarrow> list_all2 py_eq xs ys | _ \<Rightarrow> False)"
| "py_eq (VList xs) b = (case b of VList ys \<Rightarrow> list_all2 py_eq xs ys | _ \<Rightarrow> False)"
| "py_eq (VDict d) b =
     (case b of
        VDict d' \<Rightarrow>
          length d = length d' \<and>
          list_all (\<lambda>(k, v). case dict_get d' k of None \<Rightarrow> False | Some v' \<Rightarrow> py_eq v v') d
      | _ \<Rightarrow> False)"

fun py_len :: "val \<Rightarrow> nat option" where
  "py_len (VStr s) = Some (length s)"
| "py_len (VList xs) = Some (length xs)"
| "py_len (VTuple xs) = Some (length xs)"
| "py_len (VDict d) = Some (length d)"
| "py_len _ = None"

fun py_index :: "val \<Rightarrow> nat \<Rightarrow> error + val" where
  "py_index (VStr s) i = (if i < length s then Inr (VStr [s ! i]) else Inl IndexError)"
| "py_index (VList xs) i = (if i < length xs then Inr (xs ! i) else Inl IndexError)"
| "py_index (VTuple xs) i = (if i < length xs then Inr (xs ! i) else Inl IndexError)"
| "py_index (VDict d) i =
     (case dict_get d (VInt (int i)) of None \<Rightarrow> Inl (KeyError (VInt (int i))) | Some v \<Rightarrow> Inr v)"
| "py_index _ i = Inl TypeError"

text \<open>\<^verbatim>\<open>'%d' % i\<close> for an index.\<close>

fun dec_str :: "nat \<Rightarrow> string" where
  "dec_str n =
     (if n < 10 then [''0123456789'' ! n]
      else dec_str (n div 10) @ [''0123456789'' ! (n mod 10)])"

text \<open>
  \<^verbatim>\<open>'["%s"]' % k\<close>: a string key is inserted as it is; any other key is left to the
  formatter.
\<close>

fun key_path :: "formatter \<Rightarrow> val \<Rightarrow> error + string" where
  "key_path fmt (VStr s) = Inr (''[\"'' @ s @ ''\"]'')"
| "key_path fmt k = (case fmt ''[\"%s\"]'' k of Inl m \<Rightarrow> Inl (Raised m) | Inr r \<Rightarrow> Inr r)"

text \<open>
  The inner function \<open>compare\<close>; \<open>expected_scope\<close> is the variable of the enclosing \<open>Check\<close>
  that \<open>fail\<close> reads. \<open>compare_keys\<close> is the loop \<^verbatim>\<open>for k in expected\<close> and \<open>compare_range\<close>
  the loop \<^verbatim>\<open>for i in range(exp)\<close>.
\<close>

function (sequential)
  compare :: "formatter \<Rightarrow> val \<Rightarrow> val \<Rightarrow> val \<Rightarrow> string \<Rightarrow> val \<Rightarrow> error + unit"
and compare_keys :: "formatter \<Rightarrow> val \<Rightarrow> (val \<times> val) list \<Rightarrow> (val \<times> val) list \<Rightarrow> string \<Rightarrow> val \<Rightarrow>
                       error + unit"
and compare_range :: "formatter \<Rightarrow> val \<Rightarrow> val list \<Rightarrow> nat \<Rightarrow> val \<Rightarrow> string \<Rightarrow> val \<Rightarrow>
                       error + unit"
where
  "compare fmt expected_scope (VDict expected) actual var_path actual_scope =
     (case actual of
        VDict act \<Rightarrow>
          if set (map (key_norm \<circ> fst) expected) \<noteq> set (map (key_norm \<circ> fst) act)
          then Inl (CheckFailure var_path (KeySet (map fst expected)) (KeySet (map fst act)))
          else compare_keys fmt expected_scope expected act var_path actual_scope
      | _ \<Rightarrow> Inl AttributeError)"
| "compare fmt expected_scope (VList expected) actual var_path actual_scope =
     (case py_len actual of
        None \<Rightarrow> Inl TypeError
      | Some act \<Rightarrow>
          if length expected \<noteq> act
          then Inl (CheckFailure (''len('' @ var_path @ '')'')
                      (Whole expected_scope) (Whole actual_scope))
          else compare_range fmt expected_scope expected 0 actual var_path actual_scope)"
| "compare fmt expected_scope expected actual var_path actual_scope =
     (if \<not> py_eq expected actual
      then Inl (CheckFailure var_path (Whole expected_scope) (Whole actual_scope))
      else Inr ())"
| "compare_keys fmt expected_scope [] act var_path actual_scope = Inr ()"
| "compare_keys fmt expected_scope ((k, v) # rest) act var_path actual_scope =
     (case dict_get act k of
        None \<Rightarrow> Inl (KeyError k)
      | Some a \<Rightarrow>
          (case key_path fmt k of
             Inl e \<Rightarrow> Inl e
           | Inr p \<Rightarrow>
               (case compare fmt expected_scope v a (var_path @ p) actual_scope of
                  Inl e \<Rightarrow> Inl e
                | Inr u \<Rightarrow> compare_keys fmt expected_scope rest act var_path actual_scope)))"
| "compare_range fmt expected_scope [] i actual var_path actual_scope = Inr ()"
| "compare_range fmt expected_scope (x # rest) i actual var_path actual_scope =
     (case py_index actual i of
        Inl e \<Rightarrow> Inl e
      | Inr a \<Rightarrow>
          (case compare fmt expected_scope x a (var_path @ ''['' @ dec_str i @ '']'')
                  actual_scope of
             Inl e \<Rightarrow> Inl e
           | Inr u \<Rightarrow> compare_range fmt expected_scope rest (Suc i) actual var_path actual_scope))"
  by pat_completeness auto

termination
  apply (relation "measure (\<lambda>x. case x of
      Inl (fmt, es, e, a, p, as) \<Rightarrow> size e
    | Inr (Inl (fmt, es, d, a, p, as)) \<Rightarrow> size_list (size_prod size size) d
    | Inr (Inr (fmt, es, xs, i, a, p, as)) \<Rightarrow> size_list size xs)")
  apply auto
  done

section \<open>Schema validation\<close>

text \<open>The two tables of the source, \<open>_GCLIENT_HOOKS_SCHEMA\<close> and \<open>_GCLIENT_SCHEMA\<close>.\<close>

definition GCLIENT_HOOKS_SCHEMA :: schema where
  "GCLIENT_HOOKS_SCHEMA =
     S_list [S_dict [
       (Required ''action'', S_list [S_basestring]),
       (Optional ''name'', S_basestring),
       (Optional ''pattern'', S_basestring)]]"

definition GCLIENT_SCHEMA :: schema where
  "GCLIENT_SCHEMA = S_dict [
     (Optional ''allowed_hosts'', S_list [S_Optional S_basestring]),
     (Optional ''deps'', S_dict [
        (Optional_basestring,
         S_Or [S_basestring, S_dict [(Required ''url'', S_basestring)]])]),
     (Optional ''deps_os'', S_dict [
        (Optional_basestring, S_dict [(Optional_basestring, S_Or [S_basestring, S_None])])]),
     (Optional ''hooks'', GCLIENT_HOOKS_SCHEMA),
     (Optional ''hooks_os'', S_dict [(Optional_basestring, GCLIENT_HOOKS_SCHEMA)]),
     (Optional ''include_rules'', S_list [S_Optional S_basestring]),
     (Optional ''pre_deps_hooks'', GCLIENT_HOOKS_SCHEMA),
     (Optional ''recursedeps'', S_list [
        S_Optional (S_Or [
          S_basestring,
          S_tuple [S_basestring, S_basestring],
          S_list [S_basestring, S_basestring]])]),
     (Optional ''skip_child_includes'', S_list [S_Optional S_basestring]),
     (Optional ''specific_include_rules'', S_dict [
        (Optional_basestring, S_list [S_basestring])]),
     (Optional ''target_os'', S_list [S_Optional S_basestring]),
     (Optional ''use_relative_paths'', S_bool),
     (Optional ''vars'', S_dict [(Optional_basestring, S_Or [S_basestring, S_bool])])]"

text \<open>
  Modelled from the spec: the validation routine \<open>validate\<close> of the third-party schema
  library, which the source calls on \<open>_GCLIENT_SCHEMA\<close> and which is not among the sources.
  It returns the list of mismatches, empty when the value has the shape. A type or a
  literal accepts the values of that type; an alternative accepts what one of its
  branches accepts; a list or tuple schema with one element schema accepts the lists
  (tuples) all of whose elements have that shape, and one with several element schemas
  the ordered sequences of exactly that length, position by position (the "2-element
  ordered pair of strings"); a dictionary schema accepts the dictionaries each of whose
  keys is admitted by one of its keys, with a value of the shape given there, and that
  have every required key: optional keys may be absent, unknown keys are rejected.
  (\<open>key_admits\<close> and \<open>missing_keys\<close> are the two parts of the dictionary case.)
\<close>

fun key_admits :: "skey \<Rightarrow> val \<Rightarrow> bool" where
  "key_admits (Required n) k = (k = VStr n)"
| "key_admits (Optional n) k = (k = VStr n)"
| "key_admits Optional_basestring k = (case k of VStr s \<Rightarrow> True | _ \<Rightarrow> False)"

fun missing_keys :: "(skey \<times> schema) list \<Rightarrow> val list \<Rightarrow> (val \<times> val) list \<Rightarrow> mismatch list" where
  "missing_keys [] path d = []"
| "missing_keys ((Required n, s) # rest) path d =
     (if dict_get d (VStr n) = None then [MissingKey path n] else []) @ missing_keys rest path d"
| "missing_keys (e # rest) path d = missing_keys rest path d"

fun validate :: "schema \<Rightarrow> val list \<Rightarrow> val \<Rightarrow> mismatch list"
and validate_each :: "schema list \<Rightarrow> val list \<Rightarrow> nat \<Rightarrow> val list \<Rightarrow> mismatch list"
and validate_entry :: "(skey \<times> schema) list \<Rightarrow> val list \<Rightarrow> val \<Rightarrow> val \<Rightarrow> mismatch list"
where
  "validate S_basestring path v =
     (case v of VStr s \<Rightarrow> [] | _ \<Rightarrow> [Mismatch path S_basestring v])"
| "validate S_bool path v = (case v of VBool b \<Rightarrow> [] | _ \<Rightarrow> [Mismatch path S_bool v])"
| "validate S_None path v = (if v = VNone then [] else [Mismatch path S_None v])"
| "validate (S_Optional s) path v = validate s path v"
| "validate (S_Or alts) path v =
     (if list_ex (\<lambda>s. validate s path v = []) alts then [] else [Mismatch path (S_Or alts) v])"
| "validate (S_list [s]) path v =
     (case v of
        VList xs \<Rightarrow>
          concat (map (\<lambda>(i, x). validate s (path @ [VInt (int i)]) x) (enumerate 0 xs))
      | _ \<Rightarrow> [Mismatch path (S_list [s]) v])"
| "validate (S_list ss) path v =
     (case v of
        VList xs \<Rightarrow>
          if length xs \<noteq> length ss then [Mismatch path (S_list ss) v]
          else validate_each ss path 0 xs
      | _ \<Rightarrow> [Mismatch path (S_list ss) v])"
| "validate (S_tuple [s]) path v =
     (case v of
        VTuple xs \<Rightarrow>
          concat (map (\<lambda>(i, x). validate s (path @ [VInt (int i)]) x) (enumerate 0 xs))
      | _ \<Rightarrow> [Mismatch path (S_tuple [s]) v])"
| "validate (S_tuple ss) path v =
     (case v of
        VTuple xs \<Rightarrow>
          if length xs \<noteq> length ss then [Mismatch path (S_tuple ss) v]
          else validate_each ss path 0 xs
      | _ \<Rightarrow> [Mismatch path (S_tuple ss) v])"
| "validate (S_dict entries) path v =
     (case v of
        VDict d \<Rightarrow>
          concat (map (\<lambda>(k, x). validate_entry entries path k x) d) @
          missing_keys entries path d
      | _ \<Rightarrow> [Mismatch path (S_dict entries) v])"
| "validate_each [] path i xs = []"
| "validate_each (s # ss) path i [] = []"
| "validate_each (s # ss) path i (x # xs) =
     validate s (path @ [VInt (int i)]) x @ validate_each ss path (Suc i) xs"
| "validate_entry [] path k x = [UnknownKey path k]"
| "validate_entry ((sk, s) # rest) path k x =
     (if key_admits sk k then validate s (path @ [k]) x else validate_entry rest path k x)"

definition scope_val :: "scope \<Rightarrow> val" where
  "scope_val sc = VDict (map (\<lambda>(k, v). (VStr k, v)) sc)"

text \<open>
  \<open>Check\<close>: execute, compare with the expected scope, validate. (\<open>content\<close> is the parsed
  tree of the text.)
\<close>

definition Check :: "formatter \<Rightarrow> ast_node \<Rightarrow> string \<Rightarrow> (string \<rightharpoonup> callable) \<Rightarrow> val \<Rightarrow> error + unit" where
  "Check fmt content path gs expected_scope =
     (case gclient_exec fmt content gs path of
        Inl e \<Rightarrow> Inl e
      | Inr result_scope \<Rightarrow>
          (case compare fmt expected_scope expected_scope (scope_val result_scope) []
                  (scope_val result_scope) of
             Inl e \<Rightarrow> Inl e
           | Inr u \<Rightarrow>
               (case validate GCLIENT_SCHEMA [] (scope_val result_scope) of
                  [] \<Rightarrow> Inr ()
                | m # ms \<Rightarrow> Inl (SchemaError (m # ms)))))"

section \<open>Evaluation with a bound on the depth of recursion\<close>

text \<open>
  The same functions with a bound on the nesting of calls: each call of \<open>_convert\<close> uses up
  one unit, and \<open>None\<close> says that the bound was reached before a result. They serve to
  state that evaluation returns, with a bound taken from the size of the tree.
\<close>

function (sequential)
  convert_fuel :: "nat \<Rightarrow> formatter \<Rightarrow> (string \<rightharpoonup> callable) \<Rightarrow> string \<Rightarrow> bool \<Rightarrow> expr \<Rightarrow>
                   (val \<times> val) list \<Rightarrow> (error + val) option"
and convert_list_fuel :: "nat \<Rightarrow> formatter \<Rightarrow> (string \<rightharpoonup> callable) \<Rightarrow> string \<Rightarrow> bool \<Rightarrow>
                   expr list \<Rightarrow> (val \<times> val) list \<Rightarrow> (error + val list) option"
and convert_dict_fuel :: "nat \<Rightarrow> formatter \<Rightarrow> (string \<rightharpoonup> callable) \<Rightarrow> string \<Rightarrow> bool \<Rightarrow>
                   expr list \<Rightarrow> expr list \<Rightarrow> (val \<times> val) list \<Rightarrow> (val \<times> val) list \<Rightarrow>
                   (error + val) option"
where
  "convert_fuel 0 fmt gs fn ex node vd = None"
| "convert_fuel (Suc n) fmt gs fn ex (Str l s) vd = Some (Inr (VStr s))"
| "convert_fuel (Suc n) fmt gs fn ex (Tuple l elts) vd =
     (case convert_list_fuel n fmt gs fn ex elts (dict_update vd allowed_names) of
        None \<Rightarrow> None
      | Some (Inl e) \<Rightarrow> Some (Inl e)
      | Some (Inr vs) \<Rightarrow> Some (Inr (VTuple vs)))"
| "convert_fuel (Suc n) fmt gs fn ex (List l elts) vd =
     (case convert_list_fuel n fmt gs fn ex elts (dict_update vd allowed_names) of
        None \<Rightarrow> None
      | Some (Inl e) \<Rightarrow> Some (Inl e)
      | Some (Inr vs) \<Rightarrow> Some (Inr (VList vs)))"
| "convert_fuel (Suc n) fmt gs fn ex (Dict l keys vals) vd =
     convert_dict_fuel n fmt gs fn ex keys vals (dict_update vd allowed_names) []"
| "convert_fuel (Suc n) fmt gs fn ex (Name l ident) vd =
     (case dict_get (dict_update vd allowed_names) (VStr ident) of
        None \<Rightarrow> Some (Inl (ValueError (InvalidName ident (dict_update vd allowed_names)) fn l))
      | Some v \<Rightarrow> Some (Inr v))"
| "convert_fuel (Suc n) fmt gs fn ex (Call l func args keywords starargs kwargs) vd =
     (case func of
        Name l' ident \<Rightarrow>
          if keywords \<noteq> [] \<or> starargs \<noteq> None \<or> kwargs \<noteq> None
          then Some (Inl (ValueError CallNotRegularArgs fn l))
          else (case convert_list_fuel n fmt gs fn ex args (dict_update vd allowed_names) of
                  None \<Rightarrow> None
                | Some (Inl e) \<Rightarrow> Some (Inl e)
                | Some (Inr vs) \<Rightarrow>
                    (case gs ident of
                       None \<Rightarrow> Some (Inl (KeyError (VStr ident)))
                     | Some f \<Rightarrow>
                         (case f vs of
                            Inl m \<Rightarrow> Some (Inl (Raised m))
                          | Inr r \<Rightarrow> Some (Inr r))))
      | _ \<Rightarrow> Some (Inl (ValueError CallFuncNotName fn l)))"
| "convert_fuel (Suc n) fmt gs fn ex (BinOp l left op right) vd =
     (case op of
        Add_op \<Rightarrow>
          (case convert_fuel n fmt gs fn ex left (dict_update vd allowed_names) of
             None \<Rightarrow> None
           | Some (Inl e) \<Rightarrow> Some (Inl e)
           | Some (Inr a) \<Rightarrow>
               (case convert_fuel n fmt gs fn ex right (dict_update vd allowed_names) of
                  None \<Rightarrow> None
                | Some (Inl e) \<Rightarrow> Some (Inl e)
                | Some (Inr b) \<Rightarrow> Some (py_add a b)))
      | Mod_op \<Rightarrow>
          (case convert_fuel n fmt gs fn ex left (dict_update vd allowed_names) of
             None \<Rightarrow> None
           | Some (Inl e) \<Rightarrow> Some (Inl e)
           | Some (Inr a) \<Rightarrow>
               (case convert_fuel n fmt gs fn ex right (dict_update vd allowed_names) of
                  None \<Rightarrow> None
                | Some (Inl e) \<Rightarrow> Some (Inl e)
                | Some (Inr b) \<Rightarrow> Some (py_mod fmt a b)))
      | Other_op k \<Rightarrow>
          Some (Inl (ValueError (UnexpectedNode (Expr_node (BinOp l left op right))) fn l)))"
| "convert_fuel (Suc n) fmt gs fn ex (BoolOp l op operands) vd =
     (case op of
        Or_op \<Rightarrow>
          if length operands \<noteq> 2 then Some (Inl (ValueError OrArity fn l))
          else (case convert_fuel n fmt gs fn ex (operands ! 0) (dict_update vd allowed_names) of
                  None \<Rightarrow> None
                | Some (Inl e) \<Rightarrow> Some (Inl e)
                | Some (Inr a) \<Rightarrow>
                    if truthy a then Some (Inr a)
                    else convert_fuel n fmt gs fn ex (operands ! 1)
                           (dict_update vd allowed_names))
      | And_op \<Rightarrow>
          if length operands \<noteq> 2 then Some (Inl (ValueError AndArity fn l))
          else (case convert_fuel n fmt gs fn ex (operands ! 0) (dict_update vd allowed_names) of
                  None \<Rightarrow> None
                | Some (Inl e) \<Rightarrow> Some (Inl e)
                | Some (Inr a) \<Rightarrow>
                    if truthy a
                    then convert_fuel n fmt gs fn ex (operands ! 1)
                           (dict_update vd allowed_names)
                    else Some (Inr a)))"
| "convert_fuel (Suc n) fmt gs fn ex (UnaryOp l op operand) vd =
     (case op of
        Not_op \<Rightarrow>
          (case convert_fuel n fmt gs fn ex operand (dict_update vd allowed_names) of
             None \<Rightarrow> None
           | Some (Inl e) \<Rightarrow> Some (Inl e)
           | Some (Inr a) \<Rightarrow> Some (Inr (VBool (\<not> truthy a))))
      | Other_unaryop k \<Rightarrow>
          Some (Inl (ValueError (UnexpectedNode (Expr_node (UnaryOp l op operand))) fn l)))"
| "convert_fuel (Suc n) fmt gs fn ex (OtherExpr l kind) vd =
     Some (Inl (ValueError (UnexpectedNode (Expr_node (OtherExpr l kind))) fn l))"
| "convert_list_fuel n fmt gs fn ex [] vd = Some (Inr [])"
| "convert_list_fuel n fmt gs fn ex (e # es) vd =
     (case convert_fuel n fmt gs fn ex e vd of
        None \<Rightarrow> None
      | Some (Inl err) \<Rightarrow> Some (Inl err)
      | Some (Inr v) \<Rightarrow>
          (case convert_list_fuel n fmt gs fn ex es vd of
             None \<Rightarrow> None
           | Some (Inl err) \<Rightarrow> Some (Inl err)
           | Some (Inr vs) \<Rightarrow> Some (Inr (v # vs))))"
| "convert_dict_fuel n fmt gs fn ex (k # ks) (v # vs) vd result =
     (case convert_fuel n fmt gs fn ex k vd of
        None \<Rightarrow> None
      | Some (Inl err) \<Rightarrow> Some (Inl err)
      | Some (Inr c_k) \<Rightarrow>
          (case convert_fuel n fmt gs fn ex v vd of
             None \<Rightarrow> None
           | Some (Inl err) \<Rightarrow> Some (Inl err)
           | Some (Inr c_v) \<Rightarrow>
               if \<not> hashable c_k then Some (Inl TypeError)
               else convert_dict_fuel n fmt gs fn ex ks vs
                      (if ex then dict_set vd c_k c_v else vd) (dict_set result c_k c_v)))"
| "convert_dict_fuel n fmt gs fn ex [] vs vd result = Some (Inr (VDict result))"
| "convert_dict_fuel n fmt gs fn ex ks [] vd result = Some (Inr (VDict result))"
  by pat_completeness auto

termination
  apply (relation "inv_image (less_than <*lex*> less_than) (\<lambda>x. case x of
      Inl (n, fmt, gs, fn, ex, e, vd) \<Rightarrow> (n, 0)
    | Inr (Inl (n, fmt, gs, fn, ex, es, vd)) \<Rightarrow> (n, Suc (length es))
    | Inr (Inr (n, fmt, gs, fn, ex, ks, vs, vd, r)) \<Rightarrow> (n, Suc (length ks)))")
  apply auto
  done

fun gclient_eval_fuel :: "nat \<Rightarrow> formatter \<Rightarrow> ast_node \<Rightarrow> (string \<rightharpoonup> callable) \<Rightarrow> string \<Rightarrow> bool \<Rightarrow>
                            (error + val) option" where
  "gclient_eval_fuel n fmt (Expression e) gs fn ex = convert_fuel n fmt gs fn ex e []"
| "gclient_eval_fuel n fmt (Expr_node e) gs fn ex = convert_fuel n fmt gs fn ex e []"
| "gclient_eval_fuel n fmt nd gs fn ex =
     Some (Inl (ValueError (UnexpectedNode nd) fn (node_lineno nd)))"

fun visit_in_module_fuel :: "nat \<Rightarrow> formatter \<Rightarrow> (string \<rightharpoonup> callable) \<Rightarrow> string \<Rightarrow> stmt \<Rightarrow> scope \<Rightarrow>
                               (error + scope) option" where
  "visit_in_module_fuel n fmt gs fn (Assign l targets value) result_scope =
     (if length targets \<noteq> 1 then Some (Inl (ValueError AssignTargetCount fn l))
      else (case targets ! 0 of
              Name l' ident \<Rightarrow>
                (case gclient_eval_fuel n fmt (Expr_node value) gs fn (ident = ''vars'') of
                   None \<Rightarrow> None
                 | Some (Inl e) \<Rightarrow> Some (Inl e)
                 | Some (Inr v) \<Rightarrow>
                     if map_of result_scope ident \<noteq> None
                     then Some (Inl (ValueError (OverridesVar ident) fn l))
                     else Some (Inr (result_scope @ [(ident, v)])))
            | _ \<Rightarrow> Some (Inl (ValueError AssignTargetNotName fn l))))"
| "visit_in_module_fuel n fmt gs fn (OtherStmt l kind) result_scope =
     Some (Inl (ValueError (UnexpectedNode (Stmt_node (OtherStmt l kind))) fn l))"

fun exec_body_fuel :: "nat \<Rightarrow> formatter \<Rightarrow> (string \<rightharpoonup> callable) \<Rightarrow> string \<Rightarrow> stmt list \<Rightarrow> scope \<Rightarrow>
                         (error + scope) option" where
  "exec_body_fuel n fmt gs fn [] result_scope = Some (Inr result_scope)"
| "exec_body_fuel n fmt gs fn (s # ss) result_scope =
     (case visit_in_module_fuel n fmt gs fn s result_scope of
        None \<Rightarrow> None
      | Some (Inl e) \<Rightarrow> Some (Inl e)
      | Some (Inr result_scope') \<Rightarrow> exec_body_fuel n fmt gs fn ss result_scope')"

fun gclient_exec_fuel :: "nat \<Rightarrow> formatter \<Rightarrow> ast_node \<Rightarrow> (string \<rightharpoonup> callable) \<Rightarrow> string \<Rightarrow>
                            (error + scope) option" where
  "gclient_exec_fuel n fmt (Module body) gs fn = exec_body_fuel n fmt gs fn body []"
| "gclient_exec_fuel n fmt (Expression e) gs fn =
     Some (Inl (ValueError (UnexpectedNode (Expr_node e)) fn (expr_lineno e)))"
| "gclient_exec_fuel n fmt nd gs fn =
     Some (Inl (ValueError (UnexpectedNode nd) fn (node_lineno nd)))"

section \<open>Notions used in the statements\<close>

text \<open>
  The size of a tree handed to \<open>_gclient_exec\<close> or \<open>_gclient_eval\<close>: that of its expressions
  (the datatype's own \<open>size\<close>, which counts the inner nodes).
\<close>

fun stmt_size :: "stmt \<Rightarrow> nat" where
  "stmt_size (Assign l targets value) = size value"
| "stmt_size (OtherStmt l kind) = 0"

fun node_size :: "ast_node \<Rightarrow> nat" where
  "node_size (Module body) = sum_list (map stmt_size body)"
| "node_size (Expression e) = size e"
| "node_size (Expr_node e) = size e"
| "node_size (Stmt_node s) = stmt_size s"

text \<open>The line numbers of the nodes of an expression that the evaluator can reach.\<close>

fun linenos :: "expr \<Rightarrow> lineno list" where
  "linenos (Str l s) = [l]"
| "linenos (Tuple l elts) = l # concat (map linenos elts)"
| "linenos (List l elts) = l # concat (map linenos elts)"
| "linenos (Dict l keys vals) = l # concat (map linenos keys) @ concat (map linenos vals)"
| "linenos (Name l ident) = [l]"
| "linenos (Call l func args keywords starargs kwargs) = l # concat (map linenos args)"
| "linenos (BinOp l left op right) = l # linenos left @ linenos right"
| "linenos (BoolOp l op operands) = l # concat (map linenos operands)"
| "linenos (UnaryOp l op operand) = l # linenos operand"
| "linenos (OtherExpr l kind) = [l]"

text \<open>A statement of the only accepted shape: an assignment to one bare identifier.\<close>

fun plain_assignment :: "stmt \<Rightarrow> bool" where
  "plain_assignment (Assign l [Name l' ident] value) = True"
| "plain_assignment s = False"

text \<open>A formatter that supports no format, and the empty function table.\<close>

definition no_formatter :: formatter where
  "no_formatter s v = Inl ''unsupported format''"

definition no_functions :: "string \<rightharpoonup> callable" where
  "no_functions = Map.empty"

text \<open>The names of the top-level keys of \<open>_GCLIENT_SCHEMA\<close>.\<close>

definition top_level_keys :: "string list" where
  "top_level_keys =
     [''allowed_hosts'', ''deps'', ''deps_os'', ''hooks'', ''hooks_os'', ''include_rules'',
      ''pre_deps_hooks'', ''recursedeps'', ''skip_child_includes'',
      ''specific_include_rules'', ''target_os'', ''use_relative_paths'', ''vars'']"

text \<open>A function for the function table: the concatenation of two strings.\<close>

definition concat_strings :: callable where
  "concat_strings vs = (case vs of [VStr a, VStr b] \<Rightarrow> Inr (VStr (a @ b)) | _ \<Rightarrow> Inl ''bad arguments'')"

section \<open>Properties of the evaluator and the executor\<close>

lemmas env_simps = dict_update_def allowed_names_def key_eq_def

text \<open>
  C1. Executing the single assignment \<^verbatim>\<open>vars = {"a": "x", "b": a + "y"}\<close> binds \<open>vars\<close> to the
  dictionary \<^verbatim>\<open>{"a": "x", "b": "xy"}\<close>: the later pair sees the binding of the earlier one.
  The same right-hand side assigned to any other target fails with a missing-name error
  for \<open>a\<close>, because an assignment evaluates its value with \<open>expose_vars\<close> set exactly when
  the target is \<open>vars\<close>.
\<close>

theorem vars_self_reference:
  "gclient_exec fmt
     (Module [Assign l [Name l' ''vars'']
        (Dict l1 [Str l2 ''a'', Str l3 ''b'']
           [Str l4 ''x'', BinOp l5 (Name l6 ''a'') Add_op (Str l7 ''y'')])]) gs fn
   = Inr [(''vars'', VDict [(VStr ''a'', VStr ''x''), (VStr ''b'', VStr ''xy'')])]
   \<and> (target \<noteq> ''vars'' \<longrightarrow>
        gclient_exec fmt
          (Module [Assign l [Name l' target]
             (Dict l1 [Str l2 ''a'', Str l3 ''b'']
                [Str l4 ''x'', BinOp l5 (Name l6 ''a'') Add_op (Str l7 ''y'')])]) gs fn
        = Inl (ValueError (InvalidName ''a'' allowed_names) fn l6))
   \<and> visit_in_module fmt gs fn (Assign l [Name l' target] value) sc =
       (case gclient_eval fmt (Expr_node value) gs fn (target = ''vars'') of
          Inl e \<Rightarrow> Inl e
        | Inr v \<Rightarrow> if map_of sc target \<noteq> None
                   then Inl (ValueError (OverridesVar target) fn l)
                   else Inr (sc @ [(target, v)]))"
  by (simp add: env_simps)

theorem vars_self_reference_witness:
  "''other'' \<noteq> ''vars'' \<and>
   gclient_exec no_formatter
     (Module [Assign (Some 1) [Name (Some 1) ''other'']
        (Dict (Some 1) [Str (Some 1) ''a'', Str (Some 2) ''b'']
           [Str (Some 1) ''x'', BinOp (Some 2) (Name (Some 2) ''a'') Add_op (Str (Some 2) ''y'')])])
     no_functions ''DEPS''
   = Inl (ValueError (InvalidName ''a'' allowed_names) ''DEPS'' (Some 2))"
  using vars_self_reference [of no_formatter "Some 1" "Some 1" "Some 1" "Some 1" "Some 2" "Some 1"
      "Some 2" "Some 2" "Some 2" no_functions "''DEPS''" "''other''"]
  by simp

text \<open>
  C4. Boolean \<open>or\<close> and \<open>and\<close> take exactly two operands: with any other number of operands
  (a chain of three, say) the evaluation fails. With two, \<open>or\<close> evaluates the left operand
  and returns it if it is truthy, and otherwise evaluates and returns the right one;
  \<open>and\<close> returns the left operand if it is falsy, and otherwise the right one. So
  \<^verbatim>\<open>"" or "y"\<close> is \<^verbatim>\<open>"y"\<close>, and \<^verbatim>\<open>"x" or b\<close> is \<^verbatim>\<open>"x"\<close> whatever \<open>b\<close> is, even if \<open>b\<close> would fail.
\<close>

theorem boolean_operators:
  "(length operands \<noteq> 2 \<longrightarrow>
      convert fmt gs fn ex (BoolOp l Or_op operands) vd = Inl (ValueError OrArity fn l) \<and>
      convert fmt gs fn ex (BoolOp l And_op operands) vd = Inl (ValueError AndArity fn l))
   \<and> convert fmt gs fn ex (BoolOp l Or_op [a, b]) vd =
       (case convert fmt gs fn ex a (dict_update vd allowed_names) of
          Inl e \<Rightarrow> Inl e
        | Inr x \<Rightarrow> if truthy x then Inr x
                   else convert fmt gs fn ex b (dict_update vd allowed_names))
   \<and> convert fmt gs fn ex (BoolOp l And_op [a, b]) vd =
       (case convert fmt gs fn ex a (dict_update vd allowed_names) of
          Inl e \<Rightarrow> Inl e
        | Inr x \<Rightarrow> if truthy x then convert fmt gs fn ex b (dict_update vd allowed_names)
                   else Inr x)
   \<and> convert fmt gs fn ex (BoolOp l Or_op [Str l1 '''', Str l2 ''y'']) vd = Inr (VStr ''y'')
   \<and> convert fmt gs fn ex (BoolOp l Or_op [Str l1 ''x'', b]) vd = Inr (VStr ''x'')"
  by (simp add: nth_Cons' split: sum.splits)

theorem boolean_operators_witness:
  "length [Name None ''a'', Name None ''b'', Name None ''c''] \<noteq> 2 \<and>
   convert no_formatter no_functions ''DEPS'' False
     (BoolOp (Some 1) Or_op [Name None ''a'', Name None ''b'', Name None ''c'']) []
   = Inl (ValueError OrArity ''DEPS'' (Some 1))"
  using boolean_operators [of "[Name None ''a'', Name None ''b'', Name None ''c'']"
      no_formatter no_functions "''DEPS''" False "Some 1" "[]"]
  by simp

lemma exec_body_append:
  "exec_body fmt gs fn (xs @ ys) sc =
     (case exec_body fmt gs fn xs sc of Inl e \<Rightarrow> Inl e | Inr s \<Rightarrow> exec_body fmt gs fn ys s)"
  by (induction xs arbitrary: sc) (auto split: sum.splits)

lemma visit_in_module_extends:
  assumes "visit_in_module fmt gs fn s sc = Inr sc'"
  shows "\<exists>l l' ident value v. s = Assign l [Name l' ident] value \<and> sc' = sc @ [(ident, v)] \<and>
           map_of sc ident = None \<and>
           gclient_eval fmt (Expr_node value) gs fn (ident = ''vars'') = Inr v"
proof (cases s)
  case (Assign l targets rhs)
  with assms have len: "length targets = 1" by (auto split: if_splits)
  then obtain t where t: "targets = [t]" by (cases targets) auto
  with assms Assign show ?thesis
    by (cases t) (auto split: if_splits sum.splits)
next
  case (OtherStmt l kind)
  with assms show ?thesis by simp
qed

lemma exec_body_keeps_keys:
  "exec_body fmt gs fn ss sc = Inr sc' \<Longrightarrow> map_of sc x \<noteq> None \<Longrightarrow> map_of sc' x \<noteq> None"
proof (induction ss arbitrary: sc)
  case Nil
  then show ?case by simp
next
  case (Cons s ss)
  from Cons.prems(1) obtain sc1 where v: "visit_in_module fmt gs fn s sc = Inr sc1"
    and r: "exec_body fmt gs fn ss sc1 = Inr sc'"
    by (auto split: sum.splits)
  from visit_in_module_extends [OF v] obtain ident v' where "sc1 = sc @ [(ident, v')]" by blast
  with Cons.prems(2) have "map_of sc1 x \<noteq> None"
    by (auto simp: map_add_def split: option.splits)
  with Cons.IH [OF r] show ?case by blast
qed

lemma visit_in_module_duplicate:
  "map_of sc x \<noteq> None \<Longrightarrow> \<exists>e. visit_in_module fmt gs fn (Assign l [Name l' x] value) sc = Inl e"
  by (auto split: sum.splits)

lemma exec_body_two_assignments:
  "\<exists>e. exec_body fmt gs fn
         (a @ Assign l1 [Name l1' x] v1 # b @ Assign l2 [Name l2' x] v2 # c) sc = Inl e"
proof (rule ccontr)
  assume "\<not> ?thesis"
  then obtain sc' where ok: "exec_body fmt gs fn
         (a @ Assign l1 [Name l1' x] v1 # b @ Assign l2 [Name l2' x] v2 # c) sc = Inr sc'"
    by (cases "exec_body fmt gs fn
         (a @ Assign l1 [Name l1' x] v1 # b @ Assign l2 [Name l2' x] v2 # c) sc") auto
  from ok obtain s1 where s1: "exec_body fmt gs fn a sc = Inr s1"
    and r1: "exec_body fmt gs fn (Assign l1 [Name l1' x] v1 # b @ Assign l2 [Name l2' x] v2 # c) s1
             = Inr sc'"
    by (auto simp: exec_body_append split: sum.splits)
  from r1 obtain s2 where s2: "visit_in_module fmt gs fn (Assign l1 [Name l1' x] v1) s1 = Inr s2"
    and r2: "exec_body fmt gs fn (b @ Assign l2 [Name l2' x] v2 # c) s2 = Inr sc'"
    by (auto split: sum.splits simp del: visit_in_module.simps)
  from visit_in_module_extends [OF s2] have k2: "map_of s2 x \<noteq> None"
    by (auto simp: map_add_def split: option.splits)
  from r2 obtain s3 where s3: "exec_body fmt gs fn b s2 = Inr s3"
    and r3: "exec_body fmt gs fn (Assign l2 [Name l2' x] v2 # c) s3 = Inr sc'"
    by (auto simp: exec_body_append split: sum.splits)
  from exec_body_keeps_keys [OF s3 k2] have k3: "map_of s3 x \<noteq> None" .
  from visit_in_module_duplicate [OF k3] obtain e
    where "visit_in_module fmt gs fn (Assign l2 [Name l2' x] v2) s3 = Inl e" by blast
  with r3 show False by simp
qed

text \<open>
  C3. If a top-level identifier is assigned a second time in one manifest, execution
  fails and no scope is returned, so no scope ever holds the second value: whenever the
  statements before the second assignment were executed and its value evaluates, the
  failure is the duplicate-assignment error naming the identifier, the file and the line
  of that statement; and a manifest with two assignments to one name never yields a
  scope. For example \<^verbatim>\<open>x = "1"\<close> followed by \<^verbatim>\<open>x = "2"\<close> fails with that error.
\<close>

theorem duplicate_assignment_rejected:
  "(exec_body fmt gs fn pre [] = Inr sc \<and> map_of sc x \<noteq> None \<and>
    gclient_eval fmt (Expr_node value) gs fn (x = ''vars'') = Inr v \<longrightarrow>
      gclient_exec fmt (Module (pre @ Assign l [Name l' x] value # post)) gs fn
      = Inl (ValueError (OverridesVar x) fn l))
   \<and> (\<exists>e. gclient_exec fmt
             (Module (a @ Assign l1 [Name l1' x] v1 # b @ Assign l2 [Name l2' x] v2 # c)) gs fn
           = Inl e)
   \<and> gclient_exec fmt
       (Module [Assign l1 [Name l1' ''x''] (Str l3 ''1''),
                Assign l2 [Name l2' ''x''] (Str l4 ''2'')]) gs fn
     = Inl (ValueError (OverridesVar ''x'') fn l2)"
proof (intro conjI impI)
  assume h: "exec_body fmt gs fn pre [] = Inr sc \<and> map_of sc x \<noteq> None \<and>
    gclient_eval fmt (Expr_node value) gs fn (x = ''vars'') = Inr v"
  then show "gclient_exec fmt (Module (pre @ Assign l [Name l' x] value # post)) gs fn
      = Inl (ValueError (OverridesVar x) fn l)"
    by (auto simp: exec_body_append)
next
  show "\<exists>e. gclient_exec fmt
             (Module (a @ Assign l1 [Name l1' x] v1 # b @ Assign l2 [Name l2' x] v2 # c)) gs fn
           = Inl e"
    using exec_body_two_assignments [of fmt gs fn a l1 l1' x v1 b l2 l2' v2 c "[]"] by simp
next
  show "gclient_exec fmt
       (Module [Assign l1 [Name l1' ''x''] (Str l3 ''1''),
                Assign l2 [Name l2' ''x''] (Str l4 ''2'')]) gs fn
     = Inl (ValueError (OverridesVar ''x'') fn l2)"
    by simp
qed

theorem duplicate_assignment_rejected_witness:
  "exec_body no_formatter no_functions ''DEPS'' [Assign (Some 1) [Name (Some 1) ''x''] (Str (Some 1) ''1'')] []
     = Inr [(''x'', VStr ''1'')] \<and>
   map_of [(''x'', VStr ''1'')] ''x'' \<noteq> None \<and>
   gclient_eval no_formatter (Expr_node (Str (Some 2) ''2'')) no_functions ''DEPS'' (''x'' = ''vars'')
     = Inr (VStr ''2'') \<and>
   gclient_exec no_formatter
     (Module ([Assign (Some 1) [Name (Some 1) ''x''] (Str (Some 1) ''1'')] @
              Assign (Some 2) [Name (Some 2) ''x''] (Str (Some 2) ''2'') # [])) no_functions ''DEPS''
     = Inl (ValueError (OverridesVar ''x'') ''DEPS'' (Some 2))"
  using duplicate_assignment_rejected [of no_formatter no_functions "''DEPS''"
      "[Assign (Some 1) [Name (Some 1) ''x''] (Str (Some 1) ''1'')]" "[(''x'', VStr ''1'')]" "''x''"
      "Str (Some 2) ''2''" "VStr ''2''" "Some 2" "Some 2" "[]"]
  by simp

lemma not_plain_assignment_fails:
  assumes "\<not> plain_assignment s"
  shows "\<exists>d. visit_in_module fmt gs fn s sc = Inl (ValueError d fn (stmt_lineno s))"
proof (cases s)
  case (Assign l targets rhs)
  show ?thesis
  proof (cases "length targets = 1")
    case True
    then obtain t where t: "targets = [t]" by (cases targets) auto
    with assms Assign show ?thesis by (cases t) auto
  next
    case False
    with Assign show ?thesis by simp
  qed
next
  case (OtherStmt l kind)
  then show ?thesis by simp
qed

lemma exec_body_member_fails:
  assumes "s \<in> set body" and "\<And>sc. \<exists>e. visit_in_module fmt gs fn s sc = Inl e"
  shows "\<exists>e. exec_body fmt gs fn body sc = Inl e"
  using assms(1)
proof (induction body arbitrary: sc)
  case Nil
  then show ?case by simp
next
  case (Cons t body)
  show ?case
  proof (cases "visit_in_module fmt gs fn t sc")
    case (Inl e)
    then show ?thesis by simp
  next
    case (Inr sc1)
    with assms(2) [of sc] have "s \<noteq> t" by auto
    with Cons.prems have "s \<in> set body" by simp
    from Cons.IH [OF this] Inr show ?thesis by simp
  qed
qed

text \<open>
  C8. Execution accepts only a flat sequence of assignments to one bare identifier each:
  a module with no statement yields the empty scope; a statement of any other shape
  (another kind of statement, an assignment with several targets or with a target that
  is no identifier) fails with an error carrying the file and the line of the statement,
  and a module containing one never yields a scope; a top-level node that is no module
  fails as an unexpected node.
\<close>

theorem exec_accepts_only_plain_assignments:
  "gclient_exec fmt (Module []) gs fn = Inr []
   \<and> (\<not> plain_assignment s \<longrightarrow>
        (\<exists>d. visit_in_module fmt gs fn s sc = Inl (ValueError d fn (stmt_lineno s))))
   \<and> (s \<in> set body \<and> \<not> plain_assignment s \<longrightarrow>
        (\<exists>e. gclient_exec fmt (Module body) gs fn = Inl e))
   \<and> ((\<forall>body. node \<noteq> Module body) \<longrightarrow>
        (\<exists>n l. gclient_exec fmt node gs fn = Inl (ValueError (UnexpectedNode n) fn l)))"
proof (intro conjI impI)
  show "gclient_exec fmt (Module []) gs fn = Inr []" by simp
next
  assume "\<not> plain_assignment s"
  then show "\<exists>d. visit_in_module fmt gs fn s sc = Inl (ValueError d fn (stmt_lineno s))"
    by (rule not_plain_assignment_fails)
next
  assume h: "s \<in> set body \<and> \<not> plain_assignment s"
  then have "\<And>sc. \<exists>e. visit_in_module fmt gs fn s sc = Inl e"
    using not_plain_assignment_fails [of s fmt gs fn] by blast
  with h show "\<exists>e. gclient_exec fmt (Module body) gs fn = Inl e"
    using exec_body_member_fails [of s body fmt gs fn "[]"] by simp
next
  assume "\<forall>body. node \<noteq> Module body"
  then show "\<exists>n l. gclient_exec fmt node gs fn = Inl (ValueError (UnexpectedNode n) fn l)"
    by (cases node) auto
qed

theorem exec_accepts_only_plain_assignments_witness:
  "OtherStmt (Some 3) ''If'' \<in> set [Assign (Some 1) [Name (Some 1) ''x''] (Str (Some 1) ''1''),
                                     OtherStmt (Some 3) ''If'']
   \<and> \<not> plain_assignment (OtherStmt (Some 3) ''If'')
   \<and> (\<forall>body. Expression (Str (Some 1) ''1'') \<noteq> Module body)
   \<and> (\<exists>d. visit_in_module no_formatter no_functions ''DEPS'' (OtherStmt (Some 3) ''If'') []
           = Inl (ValueError d ''DEPS'' (Some 3)))
   \<and> (\<exists>e. gclient_exec no_formatter
             (Module [Assign (Some 1) [Name (Some 1) ''x''] (Str (Some 1) ''1''),
                      OtherStmt (Some 3) ''If'']) no_functions ''DEPS'' = Inl e)
   \<and> (\<exists>n l. gclient_exec no_formatter (Expression (Str (Some 1) ''1'')) no_functions ''DEPS''
             = Inl (ValueError (UnexpectedNode n) ''DEPS'' l))"
  using exec_accepts_only_plain_assignments [of no_formatter no_functions "''DEPS''"
      "OtherStmt (Some 3) ''If''" "[]"
      "[Assign (Some 1) [Name (Some 1) ''x''] (Str (Some 1) ''1''), OtherStmt (Some 3) ''If'']"
      "Expression (Str (Some 1) ''1'')"]
  by simp

section \<open>Properties of the consistency checker\<close>

text \<open>
  The failure for expected \<^verbatim>\<open>{"deps": {"a": "1"}}\<close> against actual \<^verbatim>\<open>{"deps": {"a": "2"}}\<close>
  does not carry the two mismatched values \<^verbatim>\<open>"1"\<close> and \<^verbatim>\<open>"2"\<close>.
\<close>

theorem check_failure_items_counterexample:
  "Check no_formatter
     (Module [Assign (Some 1) [Name (Some 1) ''deps'']
                (Dict (Some 1) [Str (Some 1) ''a''] [Str (Some 1) ''2''])])
     ''DEPS'' no_functions (VDict [(VStr ''deps'', VDict [(VStr ''a'', VStr ''1'')])])
   \<noteq> Inl (CheckFailure ''[\"deps\"][\"a\"]'' (Whole (VStr ''1'')) (Whole (VStr ''2'')))"
  by (simp add: Check_def scope_val_def env_simps)

text \<open>
  C6 (as the code has it). When the structural comparison of \<open>Check\<close> finds a mismatch,
  the failure carries the accumulated path, and: for a dictionary key-set mismatch, the
  two key sets; for a list-length mismatch, the path wrapped as \<^verbatim>\<open>len(...)\<close> and the whole
  expected scope and the whole actual scope; for a scalar mismatch, the whole expected
  scope and the whole actual scope. Expected \<^verbatim>\<open>{"deps": {"a": "1"}}\<close> against a manifest
  giving \<^verbatim>\<open>{"deps": {"a": "2"}}\<close> fails with path \<^verbatim>\<open>["deps"]["a"]\<close> and these two scopes, and
  against a manifest giving \<^verbatim>\<open>{"deps": {"a": "1"}}\<close> it passes.
\<close>

theorem check_failure_items:
  "(py_len actual = Some n \<and> n \<noteq> length xs \<longrightarrow>
      compare fmt expected_scope (VList xs) actual var_path actual_scope =
        Inl (CheckFailure (''len('' @ var_path @ '')'') (Whole expected_scope) (Whole actual_scope)))
   \<and> ((\<forall>d. expected \<noteq> VDict d) \<and> (\<forall>ys. expected \<noteq> VList ys) \<and> \<not> py_eq expected actual \<longrightarrow>
      compare fmt expected_scope expected actual var_path actual_scope =
        Inl (CheckFailure var_path (Whole expected_scope) (Whole actual_scope)))
   \<and> (set (map (key_norm \<circ> fst) d) \<noteq> set (map (key_norm \<circ> fst) a) \<longrightarrow>
      compare fmt expected_scope (VDict d) (VDict a) var_path actual_scope =
        Inl (CheckFailure var_path (KeySet (map fst d)) (KeySet (map fst a))))
   \<and> Check fmt
       (Module [Assign l [Name l' ''deps''] (Dict l1 [Str l2 ''a''] [Str l3 ''2''])])
       path gs (VDict [(VStr ''deps'', VDict [(VStr ''a'', VStr ''1'')])])
     = Inl (CheckFailure ''[\"deps\"][\"a\"]''
              (Whole (VDict [(VStr ''deps'', VDict [(VStr ''a'', VStr ''1'')])]))
              (Whole (VDict [(VStr ''deps'', VDict [(VStr ''a'', VStr ''2'')])])))
   \<and> Check fmt
       (Module [Assign l [Name l' ''deps''] (Dict l1 [Str l2 ''a''] [Str l3 ''1''])])
       path gs (VDict [(VStr ''deps'', VDict [(VStr ''a'', VStr ''1'')])])
     = Inr ()"
proof (intro conjI impI)
  assume "(\<forall>d. expected \<noteq> VDict d) \<and> (\<forall>ys. expected \<noteq> VList ys) \<and> \<not> py_eq expected actual"
  then show "compare fmt expected_scope expected actual var_path actual_scope =
        Inl (CheckFailure var_path (Whole expected_scope) (Whole actual_scope))"
    by (cases expected) auto
qed (auto simp: Check_def scope_val_def env_simps GCLIENT_SCHEMA_def)

theorem check_failure_items_witness:
  "py_len (VList [VStr ''a'', VStr ''b'']) = Some 2 \<and> 2 \<noteq> length [VStr ''a'']
   \<and> compare no_formatter (VDict [(VStr ''k'', VList [VStr ''a''])]) (VList [VStr ''a''])
       (VList [VStr ''a'', VStr ''b'']) ''[\"k\"]'' (VDict [(VStr ''k'', VList [VStr ''a'', VStr ''b''])])
     = Inl (CheckFailure ''len([\"k\"])'' (Whole (VDict [(VStr ''k'', VList [VStr ''a''])]))
              (Whole (VDict [(VStr ''k'', VList [VStr ''a'', VStr ''b''])])))
   \<and> \<not> py_eq (VStr ''1'') (VStr ''2'')
   \<and> compare no_formatter (VStr ''1'') (VStr ''1'') (VStr ''2'') [] (VStr ''2'')
     = Inl (CheckFailure [] (Whole (VStr ''1'')) (Whole (VStr ''2'')))
   \<and> compare no_formatter (VDict [(VStr ''a'', VNone)]) (VDict [(VStr ''a'', VNone)])
       (VDict [(VStr ''b'', VNone)]) [] (VDict [(VStr ''b'', VNone)])
     = Inl (CheckFailure [] (KeySet [VStr ''a'']) (KeySet [VStr ''b'']))"
  using check_failure_items [where actual = "VList [VStr ''a'', VStr ''b'']" and n = 2
      and xs = "[VStr ''a'']" and fmt = no_formatter
      and expected_scope = "VDict [(VStr ''k'', VList [VStr ''a''])]" and var_path = "''[\"k\"]''"
      and actual_scope = "VDict [(VStr ''k'', VList [VStr ''a'', VStr ''b''])]"]
    check_failure_items [where fmt = no_formatter and expected_scope = "VStr ''1''"
      and var_path = "[]" and actual_scope = "VStr ''2''" and expected = "VStr ''1''"
      and actual = "VStr ''2''"]
    check_failure_items [where fmt = no_formatter and expected_scope = "VDict [(VStr ''a'', VNone)]"
      and var_path = "[]" and actual_scope = "VDict [(VStr ''b'', VNone)]"
      and d = "[(VStr ''a'', VNone)]" and a = "[(VStr ''b'', VNone)]"]
  by simp

section \<open>Exposed bindings stay inside their dictionary literal\<close>

lemma convert_list_all2:
  "(convert_list fmt gs fn ex es vd = Inr vs) =
     list_all2 (\<lambda>e v. convert fmt gs fn ex e vd = Inr v) es vs"
proof (induction es arbitrary: vs)
  case Nil
  then show ?case by auto
next
  case (Cons e es)
  show ?case
  proof (cases vs)
    case Nil
    then show ?thesis by (auto split: sum.splits)
  next
    case (Cons v vs')
    with Cons.IH [of vs'] show ?thesis by (auto split: sum.splits)
  qed
qed

text \<open>
  C2. With \<open>expose_vars\<close> set, the bindings that the pairs of a dictionary literal add to the
  environment are seen by the later pairs of that literal only. The elements of a list
  (or tuple, or argument list) are all evaluated in one and the same environment; an
  expression standing after a dictionary literal in a list is evaluated in the
  environment of the list, whatever the literal has bound. So \<^verbatim>\<open>[{"a": "x"}, a]\<close> fails
  for the unknown name \<open>a\<close>; in \<^verbatim>\<open>vars = {"d": {"a": "x"}, "b": a}\<close> the inner literal's \<open>a\<close> is
  unknown to the outer one, which knows \<open>d\<close> only; and after \<^verbatim>\<open>vars = {"a": "x"}\<close> the
  statement \<^verbatim>\<open>y = a\<close> fails, the names available being the three constants.
\<close>

theorem exposure_does_not_leak:
  "(convert_list fmt gs fn ex es vd = Inr vs) =
     list_all2 (\<lambda>e v. convert fmt gs fn ex e vd = Inr v) es vs
   \<and> convert fmt gs fn True (List l [Dict l1 ks vs', e]) vd =
       (case convert fmt gs fn True (Dict l1 ks vs') (dict_update vd allowed_names) of
          Inl err \<Rightarrow> Inl err
        | Inr d \<Rightarrow>
            (case convert fmt gs fn True e (dict_update vd allowed_names) of
               Inl err \<Rightarrow> Inl err
             | Inr v \<Rightarrow> Inr (VList [d, v])))
   \<and> convert fmt gs fn True (List l [Dict l1 [Str l2 ''a''] [Str l3 ''x''], Name l4 ''a'']) []
       = Inl (ValueError (InvalidName ''a'' allowed_names) fn l4)
   \<and> gclient_exec fmt
       (Module [Assign l [Name l' ''vars'']
          (Dict l1 [Str l2 ''d'', Str l3 ''b'']
             [Dict l4 [Str l5 ''a''] [Str l6 ''x''], Name l7 ''a''])]) gs fn
       = Inl (ValueError
                (InvalidName ''a'' (allowed_names @ [(VStr ''d'', VDict [(VStr ''a'', VStr ''x'')])]))
                fn l7)
   \<and> gclient_exec fmt
       (Module [Assign l [Name l' ''vars''] (Dict l1 [Str l2 ''a''] [Str l3 ''x'']),
                Assign l4 [Name l5 ''y''] (Name l6 ''a'')]) gs fn
       = Inl (ValueError (InvalidName ''a'' allowed_names) fn l6)"
proof (intro conjI)
  show "(convert_list fmt gs fn ex es vd = Inr vs) =
     list_all2 (\<lambda>e v. convert fmt gs fn ex e vd = Inr v) es vs"
    by (rule convert_list_all2)
qed (simp_all add: env_simps split: sum.splits)

theorem exposure_does_not_leak_witness:
  "convert_list no_formatter no_functions ''DEPS'' True
     [Dict None [Str None ''a''] [Str None ''x''], Name (Some 2) ''a''] allowed_names
   \<noteq> Inr [VDict [(VStr ''a'', VStr ''x'')], VStr ''x'']"
  using exposure_does_not_leak [where fmt = no_formatter and gs = no_functions and fn = "''DEPS''"
      and ex = True and es = "[Dict None [Str None ''a''] [Str None ''x''], Name (Some 2) ''a'']"
      and vd = allowed_names and vs = "[VDict [(VStr ''a'', VStr ''x'')], VStr ''x'']"]
  by (simp add: env_simps)

section \<open>Properties of schema validation\<close>

lemma validate_entry_unknown:
  "\<forall>e\<in>set entries. \<not> key_admits (fst e) k \<Longrightarrow>
     validate_entry entries path k x = [UnknownKey path k]"
  by (induction entries) auto

lemma missing_keys_optional:
  "\<forall>e\<in>set entries. \<exists>n. fst e = Optional n \<Longrightarrow> missing_keys entries path d = []"
  by (induction entries path d rule: missing_keys.induct) auto

lemma validate_dict_unknown:
  assumes "(k, v) \<in> set d" and "\<forall>e\<in>set entries. \<not> key_admits (fst e) k"
  shows "UnknownKey path k \<in> set (validate (S_dict entries) path (VDict d))"
proof -
  have "validate_entry entries path k v = [UnknownKey path k]"
    using assms(2) by (rule validate_entry_unknown)
  with assms(1) show ?thesis by force
qed

lemma validate_dict_filter:
  assumes "validate (S_dict entries) path (VDict d) = []"
    and "\<forall>e\<in>set entries. \<exists>n. fst e = Optional n"
  shows "validate (S_dict entries) path (VDict (filter P d)) = []"
  using assms by (auto simp: missing_keys_optional)

lemma GCLIENT_SCHEMA_keys:
  "\<exists>entries. GCLIENT_SCHEMA = S_dict entries \<and>
     (\<forall>e\<in>set entries. \<exists>n. fst e = Optional n \<and> n \<in> set top_level_keys)"
  by (simp add: GCLIENT_SCHEMA_def top_level_keys_def)

text \<open>
  C7. Validation against \<open>_GCLIENT_SCHEMA\<close> accepts the scope \<^verbatim>\<open>{"deps": {"a": "1"}}\<close>; it
  rejects \<^verbatim>\<open>{"deps": {"a": 1}}\<close> with a type mismatch at \<open>deps\<close>, \<open>a\<close>; it rejects every scope
  with a top-level key outside the fixed set of optional keys, such as \<^verbatim>\<open>{"bogus": 1}\<close>; and
  the absence of top-level keys is always valid: a valid scope stays valid when keys are
  removed, and the empty scope is valid.
\<close>

theorem schema_validation:
  "validate GCLIENT_SCHEMA [] (VDict [(VStr ''deps'', VDict [(VStr ''a'', VStr ''1'')])]) = []
   \<and> validate GCLIENT_SCHEMA [] (VDict [(VStr ''deps'', VDict [(VStr ''a'', VInt 1)])])
       = [Mismatch [VStr ''deps'', VStr ''a'']
            (S_Or [S_basestring, S_dict [(Required ''url'', S_basestring)]]) (VInt 1)]
   \<and> validate GCLIENT_SCHEMA [] (VDict [(VStr ''bogus'', VInt 1)]) = [UnknownKey [] (VStr ''bogus'')]
   \<and> ((k, v) \<in> set d \<and> k \<notin> VStr ` set top_level_keys \<longrightarrow>
        UnknownKey [] k \<in> set (validate GCLIENT_SCHEMA [] (VDict d)))
   \<and> (validate GCLIENT_SCHEMA [] (VDict d) = [] \<longrightarrow>
        validate GCLIENT_SCHEMA [] (VDict (filter P d)) = [])
   \<and> validate GCLIENT_SCHEMA [] (VDict []) = []"
proof -
  obtain entries where E: "GCLIENT_SCHEMA = S_dict entries"
    and O: "\<forall>e\<in>set entries. \<exists>n. fst e = Optional n \<and> n \<in> set top_level_keys"
    using GCLIENT_SCHEMA_keys by blast
  have c1: "validate GCLIENT_SCHEMA [] (VDict [(VStr ''deps'', VDict [(VStr ''a'', VStr ''1'')])]) = []"
    by (simp add: GCLIENT_SCHEMA_def)
  have c2: "validate GCLIENT_SCHEMA [] (VDict [(VStr ''deps'', VDict [(VStr ''a'', VInt 1)])])
       = [Mismatch [VStr ''deps'', VStr ''a'']
            (S_Or [S_basestring, S_dict [(Required ''url'', S_basestring)]]) (VInt 1)]"
    by (simp add: GCLIENT_SCHEMA_def)
  have c3: "validate GCLIENT_SCHEMA [] (VDict [(VStr ''bogus'', VInt 1)])
       = [UnknownKey [] (VStr ''bogus'')]"
    by (simp add: GCLIENT_SCHEMA_def)
  have c4: "UnknownKey [] k \<in> set (validate GCLIENT_SCHEMA [] (VDict d))"
    if h: "(k, v) \<in> set d \<and> k \<notin> VStr ` set top_level_keys"
  proof -
    have "\<forall>e\<in>set entries. \<not> key_admits (fst e) k"
    proof
      fix e assume "e \<in> set entries"
      with O obtain n where "fst e = Optional n" "n \<in> set top_level_keys" by blast
      with h show "\<not> key_admits (fst e) k" by auto
    qed
    with h show ?thesis unfolding E by (blast intro: validate_dict_unknown)
  qed
  have c5: "validate GCLIENT_SCHEMA [] (VDict (filter P d)) = []"
    if "validate GCLIENT_SCHEMA [] (VDict d) = []"
    using that O unfolding E by (blast intro: validate_dict_filter)
  have "\<forall>e\<in>set entries. \<exists>n. fst e = Optional n"
    using O by blast
  then have c6: "validate GCLIENT_SCHEMA [] (VDict []) = []"
    unfolding E by (simp add: missing_keys_optional)
  from c1 c2 c3 c4 c5 c6 show ?thesis by blast
qed

theorem schema_validation_witness:
  "(VStr ''bogus'', VInt 1) \<in> set [(VStr ''deps'', VDict []), (VStr ''bogus'', VInt 1)]
   \<and> VStr ''bogus'' \<notin> VStr ` set top_level_keys
   \<and> UnknownKey [] (VStr ''bogus'')
       \<in> set (validate GCLIENT_SCHEMA [] (VDict [(VStr ''deps'', VDict []), (VStr ''bogus'', VInt 1)]))
   \<and> validate GCLIENT_SCHEMA []
       (VDict [(VStr ''deps'', VDict [(VStr ''a'', VStr ''1'')]), (VStr ''vars'', VDict [])]) = []
   \<and> validate GCLIENT_SCHEMA []
       (VDict (filter (\<lambda>kv. fst kv \<noteq> VStr ''vars'')
          [(VStr ''deps'', VDict [(VStr ''a'', VStr ''1'')]), (VStr ''vars'', VDict [])])) = []"
proof -
  have a: "(VStr ''bogus'', VInt 1) \<in> set [(VStr ''deps'', VDict []), (VStr ''bogus'', VInt 1)]
     \<and> VStr ''bogus'' \<notin> VStr ` set top_level_keys"
    by (simp add: top_level_keys_def)
  have b: "validate GCLIENT_SCHEMA []
       (VDict [(VStr ''deps'', VDict [(VStr ''a'', VStr ''1'')]), (VStr ''vars'', VDict [])]) = []"
    by (simp add: GCLIENT_SCHEMA_def)
  from a b
    schema_validation [where k = "VStr ''bogus''" and v = "VInt 1"
      and d = "[(VStr ''deps'', VDict []), (VStr ''bogus'', VInt 1)]"]
    schema_validation [where d = "[(VStr ''deps'', VDict [(VStr ''a'', VStr ''1'')]), (VStr ''vars'', VDict [])]"
      and P = "\<lambda>kv. fst kv \<noteq> VStr ''vars''"]
  show ?thesis by blast
qed

section \<open>Evaluation returns\<close>

lemma convert_list_fuel_step:
  assumes "\<And>node vd. size node < n \<Longrightarrow>
             convert_fuel n fmt gs fn ex node vd = Some (convert fmt gs fn ex node vd)"
  shows "size_list size es < n \<Longrightarrow>
           convert_list_fuel n fmt gs fn ex es vd = Some (convert_list fmt gs fn ex es vd)"
proof (induction es)
  case Nil
  then show ?case by simp
next
  case (Cons e es)
  then have "size e < n" and "size_list size es < n" by simp_all
  with Cons.IH assms [of e vd] show ?case by (simp split: sum.splits)
qed

lemma convert_dict_fuel_step:
  assumes "\<And>node vd. size node < n \<Longrightarrow>
             convert_fuel n fmt gs fn ex node vd = Some (convert fmt gs fn ex node vd)"
  shows "size_list size ks + size_list size vs < n \<Longrightarrow>
           convert_dict_fuel n fmt gs fn ex ks vs vd res
           = Some (convert_dict fmt gs fn ex ks vs vd res)"
proof (induction ks arbitrary: vs vd res)
  case Nil
  then show ?case by simp
next
  case (Cons k ks)
  show ?case
  proof (cases vs)
    case Nil
    then show ?thesis by simp
  next
    case (Cons v vs')
    with Cons.prems have s: "size k < n" "size v < n" "size_list size ks + size_list size vs' < n"
      by simp_all
    show ?thesis
      unfolding Cons
      using assms [OF s(1), of vd] assms [OF s(2), of vd] Cons.IH [OF s(3)]
      by (simp split: sum.splits)
  qed
qed

lemma convert_fuel_enough:
  "size node < n \<Longrightarrow> convert_fuel n fmt gs fn ex node vd = Some (convert fmt gs fn ex node vd)"
proof (induction n arbitrary: node vd)
  case 0
  then show ?case by simp
next
  case (Suc m)
  note IH = Suc.IH
  note L = convert_list_fuel_step [of m fmt gs fn ex, OF IH]
  note D = convert_dict_fuel_step [of m fmt gs fn ex, OF IH]
  show ?case
  proof (cases node)
    case (Str l s)
    then show ?thesis by simp
  next
    case (Tuple l elts)
    with Suc.prems L [of elts] show ?thesis by (simp split: sum.splits)
  next
    case (List l elts)
    with Suc.prems L [of elts] show ?thesis by (simp split: sum.splits)
  next
    case (Dict l ks vs)
    with Suc.prems D [of ks vs] show ?thesis by simp
  next
    case (Name l ident)
    then show ?thesis by (simp split: option.splits)
  next
    case (Call l func args kws starargs kwargs)
    with Suc.prems have "size_list size args < m" by simp
    with Call L [of args] show ?thesis by (simp split: expr.splits sum.splits option.splits)
  next
    case (BinOp l left op right)
    with Suc.prems have "size left < m" "size right < m" by simp_all
    with BinOp IH [of left] IH [of right] show ?thesis
      by (simp split: operator.splits sum.splits)
  next
    case (BoolOp l op operands)
    show ?thesis
    proof (cases "length operands = 2")
      case True
      then obtain a b where ab: "operands = [a, b]"
        by (auto simp: numeral_2_eq_2 length_Suc_conv)
      with Suc.prems BoolOp have "size a < m" "size b < m" by simp_all
      with BoolOp ab IH [of a] IH [of b] show ?thesis
        by (simp split: boolop.splits sum.splits)
    next
      case False
      with BoolOp show ?thesis by (simp split: boolop.splits)
    qed
  next
    case (UnaryOp l op operand)
    with Suc.prems have "size operand < m" by simp
    with UnaryOp IH [of operand] show ?thesis by (simp split: unaryop.splits sum.splits)
  next
    case (OtherExpr l kind)
    then show ?thesis by simp
  qed
qed

lemma visit_in_module_fuel_enough:
  "stmt_size s < n \<Longrightarrow>
     visit_in_module_fuel n fmt gs fn s sc = Some (visit_in_module fmt gs fn s sc)"
proof (cases s)
  case (Assign l targets rhs)
  assume "stmt_size s < n"
  with Assign have "size rhs < n" by simp
  with Assign show ?thesis
    by (simp add: convert_fuel_enough split: expr.splits sum.splits)
next
  case (OtherStmt l kind)
  then show ?thesis by simp
qed

lemma exec_body_fuel_enough:
  "sum_list (map stmt_size body) < n \<Longrightarrow>
     exec_body_fuel n fmt gs fn body sc = Some (exec_body fmt gs fn body sc)"
proof (induction body arbitrary: sc)
  case Nil
  then show ?case by simp
next
  case (Cons s body)
  then have "stmt_size s < n" "sum_list (map stmt_size body) < n" by simp_all
  with Cons.IH show ?case
    by (simp add: visit_in_module_fuel_enough split: sum.splits del: visit_in_module.simps visit_in_module_fuel.simps)
qed

text \<open>
  C9. For every expression and every statement tree, evaluation and execution return, a
  value or scope or a failure: with a bound on the nesting of calls that exceeds the size
  of the tree, the bounded functions never run out and give the result of \<open>_convert\<close>,
  \<open>_gclient_eval\<close> and \<open>_gclient_exec\<close>. The recursion of \<open>_convert\<close> is on strict subtrees
  (its termination proof above).
\<close>

theorem evaluation_terminates:
  "(size node < n \<longrightarrow>
      convert_fuel n fmt gs fn ex node vd = Some (convert fmt gs fn ex node vd))
   \<and> (node_size tree < n \<longrightarrow>
      gclient_eval_fuel n fmt tree gs fn ex = Some (gclient_eval fmt tree gs fn ex) \<and>
      gclient_exec_fuel n fmt tree gs fn = Some (gclient_exec fmt tree gs fn))"
proof (intro conjI impI)
  assume "size node < n"
  then show "convert_fuel n fmt gs fn ex node vd = Some (convert fmt gs fn ex node vd)"
    by (rule convert_fuel_enough)
next
  assume "node_size tree < n"
  then show "gclient_eval_fuel n fmt tree gs fn ex = Some (gclient_eval fmt tree gs fn ex)"
    by (cases tree) (simp_all add: convert_fuel_enough)
next
  assume "node_size tree < n"
  then show "gclient_exec_fuel n fmt tree gs fn = Some (gclient_exec fmt tree gs fn)"
    by (cases tree) (simp_all add: exec_body_fuel_enough)
qed

theorem evaluation_terminates_witness:
  "size (BinOp None (Name None ''a'') Add_op (Str None ''y'')) < 3
   \<and> convert_fuel 3 no_formatter no_functions ''DEPS'' False
       (BinOp None (Name None ''a'') Add_op (Str None ''y'')) []
     = Some (Inl (ValueError (InvalidName ''a'' allowed_names) ''DEPS'' None))
   \<and> node_size (Module [Assign None [Name None ''x''] (List None [Str None ''1''])]) < 3
   \<and> gclient_exec_fuel 3 no_formatter
       (Module [Assign None [Name None ''x''] (List None [Str None ''1''])]) no_functions ''DEPS''
     = Some (Inr [(''x'', VList [VStr ''1''])])"
  using evaluation_terminates [where n = 3 and fmt = no_formatter and gs = no_functions
      and fn = "''DEPS''" and ex = False and vd = "[]"
      and node = "BinOp None (Name None ''a'') Add_op (Str None ''y'')"
      and tree = "Module [Assign None [Name None ''x''] (List None [Str None ''1''])]"]
  by (simp add: env_simps)

section \<open>Repeated keys in a dictionary literal\<close>

lemma dict_get_dict_set:
  "dict_get (dict_set d k v) k' = (if key_eq k k' then Some v else dict_get d k')"
  by (induction d) (auto simp: key_eq_def)

lemma dict_update_snoc:
  "dict_update d (ps @ [(k, v)]) = dict_set (dict_update d ps) k v"
  by (simp add: dict_update_def)

lemma dict_update_Cons:
  "dict_update d ((k, v) # ps) = dict_update (dict_set d k v) ps"
  by (simp add: dict_update_def)

lemma dict_get_dict_update:
  "dict_get (dict_update d ps) k =
     (case dict_get (rev ps) k of Some v \<Rightarrow> Some v | None \<Rightarrow> dict_get d k)"
proof (induction ps rule: rev_induct)
  case Nil
  then show ?case by (simp add: dict_update_def)
next
  case (snoc p ps)
  obtain k' v' where p: "p = (k', v')" by (cases p)
  show ?case
    unfolding p dict_update_snoc dict_get_dict_set
    using snoc.IH by simp
qed

lemma convert_dict_pairs:
  "(convert_dict fmt gs fn ex ks vs vd res = Inr r) =
   (\<exists>ps. length ps = min (length ks) (length vs) \<and>
      (\<forall>i<length ps.
         hashable (fst (ps ! i)) \<and>
         convert fmt gs fn ex (ks ! i) (if ex then dict_update vd (take i ps) else vd)
           = Inr (fst (ps ! i)) \<and>
         convert fmt gs fn ex (vs ! i) (if ex then dict_update vd (take i ps) else vd)
           = Inr (snd (ps ! i))) \<and>
      r = VDict (dict_update res ps))"
  (is "?L ks vs vd res = ?R ks vs vd res")
proof (induction ks arbitrary: vs vd res)
  case Nil
  show ?case by (auto simp: dict_update_def)
next
  case (Cons k ks)
  show ?case
  proof (cases vs)
    case Nil
    then show ?thesis by (auto simp: dict_update_def)
  next
    case (Cons v vs')
    show ?thesis
    proof
      assume L: "?L (k # ks) vs vd res"
      then obtain ck cv where ck: "convert fmt gs fn ex k vd = Inr ck"
        and cv: "convert fmt gs fn ex v vd = Inr cv" and h: "hashable ck"
        and rest: "convert_dict fmt gs fn ex ks vs' (if ex then dict_set vd ck cv else vd)
                     (dict_set res ck cv) = Inr r"
        unfolding Cons by (auto split: sum.splits if_splits)
      from rest obtain ps where len: "length ps = min (length ks) (length vs')"
        and each: "\<forall>i<length ps.
           hashable (fst (ps ! i)) \<and>
           convert fmt gs fn ex (ks ! i)
             (if ex then dict_update (if ex then dict_set vd ck cv else vd) (take i ps)
              else (if ex then dict_set vd ck cv else vd)) = Inr (fst (ps ! i)) \<and>
           convert fmt gs fn ex (vs' ! i)
             (if ex then dict_update (if ex then dict_set vd ck cv else vd) (take i ps)
              else (if ex then dict_set vd ck cv else vd)) = Inr (snd (ps ! i))"
        and r: "r = VDict (dict_update (dict_set res ck cv) ps)"
        unfolding Cons.IH by blast
      let ?ps = "(ck, cv) # ps"
      have 1: "length ?ps = min (length (k # ks)) (length vs)"
        using len Cons by simp
      have 2: "\<forall>i<length ?ps.
         hashable (fst (?ps ! i)) \<and>
         convert fmt gs fn ex ((k # ks) ! i) (if ex then dict_update vd (take i ?ps) else vd)
           = Inr (fst (?ps ! i)) \<and>
         convert fmt gs fn ex (vs ! i) (if ex then dict_update vd (take i ?ps) else vd)
           = Inr (snd (?ps ! i))"
      proof (intro allI impI)
        fix i assume i: "i < length ?ps"
        show "hashable (fst (?ps ! i)) \<and>
         convert fmt gs fn ex ((k # ks) ! i) (if ex then dict_update vd (take i ?ps) else vd)
           = Inr (fst (?ps ! i)) \<and>
         convert fmt gs fn ex (vs ! i) (if ex then dict_update vd (take i ?ps) else vd)
           = Inr (snd (?ps ! i))"
        proof (cases i)
          case 0
          with ck cv h Cons show ?thesis by (auto simp: dict_update_def)
        next
          case (Suc j)
          with i have "j < length ps" by simp
          from each [rule_format, OF this] Suc Cons show ?thesis
            by (cases ex) (simp_all add: dict_update_Cons)
        qed
      qed
      have 3: "r = VDict (dict_update res ?ps)"
        using r by (simp add: dict_update_Cons)
      from 1 2 3 show "?R (k # ks) vs vd res" by blast
    next
      assume R: "?R (k # ks) vs vd res"
      then obtain qs where len: "length qs = min (length (k # ks)) (length vs)"
        and each: "\<forall>i<length qs.
         hashable (fst (qs ! i)) \<and>
         convert fmt gs fn ex ((k # ks) ! i) (if ex then dict_update vd (take i qs) else vd)
           = Inr (fst (qs ! i)) \<and>
         convert fmt gs fn ex (vs ! i) (if ex then dict_update vd (take i qs) else vd)
           = Inr (snd (qs ! i))"
        and r: "r = VDict (dict_update res qs)"
        by blast
      from len Cons obtain ck cv ps where qs: "qs = (ck, cv) # ps"
        by (cases qs) auto
      from each [rule_format, of 0] qs Cons
      have ck: "convert fmt gs fn ex k vd = Inr ck" and cv: "convert fmt gs fn ex v vd = Inr cv"
        and h: "hashable ck"
        by (cases ex; simp add: dict_update_def)+
      have len': "length ps = min (length ks) (length vs')"
        using len qs Cons by simp
      have each': "\<forall>i<length ps.
           hashable (fst (ps ! i)) \<and>
           convert fmt gs fn ex (ks ! i)
             (if ex then dict_update (if ex then dict_set vd ck cv else vd) (take i ps)
              else (if ex then dict_set vd ck cv else vd)) = Inr (fst (ps ! i)) \<and>
           convert fmt gs fn ex (vs' ! i)
             (if ex then dict_update (if ex then dict_set vd ck cv else vd) (take i ps)
              else (if ex then dict_set vd ck cv else vd)) = Inr (snd (ps ! i))"
      proof (intro allI impI)
        fix i assume "i < length ps"
        then have "Suc i < length qs" using qs by simp
        from each [rule_format, OF this] qs Cons
        show "hashable (fst (ps ! i)) \<and>
           convert fmt gs fn ex (ks ! i)
             (if ex then dict_update (if ex then dict_set vd ck cv else vd) (take i ps)
              else (if ex then dict_set vd ck cv else vd)) = Inr (fst (ps ! i)) \<and>
           convert fmt gs fn ex (vs' ! i)
             (if ex then dict_update (if ex then dict_set vd ck cv else vd) (take i ps)
              else (if ex then dict_set vd ck cv else vd)) = Inr (snd (ps ! i))"
          by (cases ex) (simp_all add: dict_update_Cons)
      qed
      have r': "r = VDict (dict_update (dict_set res ck cv) ps)"
        using r qs by (simp add: dict_update_Cons)
      from len' each' r'
      have "convert_dict fmt gs fn ex ks vs' (if ex then dict_set vd ck cv else vd)
                     (dict_set res ck cv) = Inr r"
        unfolding Cons.IH by blast
      with ck cv h show "?L (k # ks) vs vd res"
        unfolding Cons by simp
    qed
  qed
qed

text \<open>
  C10. A key that occurs more than once in a dictionary literal is not rejected. The
  literal evaluates exactly when each of its pairs evaluates, with a hashable key, in the
  environment of the literal (extended, when \<open>expose_vars\<close> is set, by the pairs before
  it, so that a pair between two occurrences of a key sees the value of the earlier
  one); the result is the dictionary built from the evaluated pairs in order, and it maps
  every key to the value of its last occurrence. So \<^verbatim>\<open>{"a": "x", "a": "z"}\<close> is
  \<^verbatim>\<open>{"a": "z"}\<close>, and with \<open>expose_vars\<close> \<^verbatim>\<open>{"a": "x", "b": a, "a": "z"}\<close> is
  \<^verbatim>\<open>{"a": "z", "b": "x"}\<close>.
\<close>

theorem duplicate_dict_keys:
  "(convert fmt gs fn ex (Dict l ks vs) vd = Inr r) =
   (\<exists>ps. length ps = min (length ks) (length vs) \<and>
      (\<forall>i<length ps.
         hashable (fst (ps ! i)) \<and>
         convert fmt gs fn ex (ks ! i)
           (if ex then dict_update (dict_update vd allowed_names) (take i ps)
            else dict_update vd allowed_names) = Inr (fst (ps ! i)) \<and>
         convert fmt gs fn ex (vs ! i)
           (if ex then dict_update (dict_update vd allowed_names) (take i ps)
            else dict_update vd allowed_names) = Inr (snd (ps ! i))) \<and>
      r = VDict (dict_update [] ps))
   \<and> dict_get (dict_update [] qs) key = dict_get (rev qs) key
   \<and> convert fmt gs fn ex (Dict l [Str l1 ''a'', Str l2 ''a''] [Str l3 ''x'', Str l4 ''z'']) []
       = Inr (VDict [(VStr ''a'', VStr ''z'')])
   \<and> convert fmt gs fn True
       (Dict l [Str l1 ''a'', Str l2 ''b'', Str l3 ''a''] [Str l4 ''x'', Name l5 ''a'', Str l6 ''z'']) []
       = Inr (VDict [(VStr ''a'', VStr ''z''), (VStr ''b'', VStr ''x'')])"
proof (intro conjI)
  show "dict_get (dict_update [] qs) key = dict_get (rev qs) key"
    by (simp add: dict_get_dict_update split: option.splits)
qed (simp_all add: convert_dict_pairs, simp_all add: env_simps)

theorem duplicate_dict_keys_witness:
  "convert no_formatter no_functions ''DEPS'' False
     (Dict None [Str None ''a'', Str None ''a''] [Str None ''x'', Str None ''z'']) []
     = Inr (VDict (dict_update [] [(VStr ''a'', VStr ''x''), (VStr ''a'', VStr ''z'')]))
   \<and> dict_get (dict_update [] [(VStr ''a'', VStr ''x''), (VStr ''a'', VStr ''z'')]) (VStr ''a'')
     = Some (VStr ''z'')"
proof -
  let ?ps = "[(VStr ''a'', VStr ''x''), (VStr ''a'', VStr ''z'')]"
  note T = duplicate_dict_keys [where fmt = no_formatter and gs = no_functions and fn = "''DEPS''"
      and ex = False and l = None and ks = "[Str None ''a'', Str None ''a'']"
      and vs = "[Str None ''x'', Str None ''z'']" and vd = "[]"
      and r = "VDict (dict_update [] ?ps)" and qs = ?ps and key = "VStr ''a''"]
  have "length ?ps = min (length [Str None ''a'', Str None ''a''])
                         (length [Str None ''x'', Str None ''z''])
      \<and> (\<forall>i<length ?ps.
         hashable (fst (?ps ! i)) \<and>
         convert no_formatter no_functions ''DEPS'' False ([Str None ''a'', Str None ''a''] ! i)
           (if False then dict_update (dict_update [] allowed_names) (take i ?ps)
            else dict_update [] allowed_names) = Inr (fst (?ps ! i)) \<and>
         convert no_formatter no_functions ''DEPS'' False ([Str None ''x'', Str None ''z''] ! i)
           (if False then dict_update (dict_update [] allowed_names) (take i ?ps)
            else dict_update [] allowed_names) = Inr (snd (?ps ! i)))
      \<and> VDict (dict_update [] ?ps) = VDict (dict_update [] ?ps)"
    by (simp add: less_Suc_eq numeral_2_eq_2)
  then have 1: "convert no_formatter no_functions ''DEPS'' False
     (Dict None [Str None ''a'', Str None ''a''] [Str None ''x'', Str None ''z'']) []
     = Inr (VDict (dict_update [] ?ps))"
    unfolding T [THEN conjunct1] by (rule exI [of _ ?ps])
  have 2: "dict_get (dict_update [] ?ps) (VStr ''a'') = Some (VStr ''z'')"
    unfolding T [THEN conjunct2, THEN conjunct1] by (simp add: key_eq_def)
  from 1 2 show ?thesis by (rule conjI)
qed

section \<open>Calls and the failures of the evaluator\<close>

lemma py_add_error: "py_add a b = Inl e \<Longrightarrow> e = TypeError"
  by (induction a b rule: py_add.induct) (auto split: option.splits)

lemma py_mod_error:
  "py_mod fmt a b = Inl e \<Longrightarrow> e = TypeError \<or> e = ZeroDivisionError \<or> (\<exists>m. e = Raised m)"
  by (induction fmt a b rule: py_mod.induct) (auto split: sum.splits option.splits if_splits)

lemma convert_list_ValueError:
  "convert_list fmt gs fn ex es vd = Inl (ValueError d fname line) \<Longrightarrow>
   \<forall>e\<in>set es. \<forall>vd. convert fmt gs fn ex e vd = Inl (ValueError d fname line) \<longrightarrow>
             fname = fn \<and> line \<in> set (linenos e) \<Longrightarrow>
   fname = fn \<and> line \<in> set (concat (map linenos es))"
proof (induction es)
  case Nil
  then show ?case by simp
next
  case (Cons e es)
  show ?case
  proof (cases "convert fmt gs fn ex e vd")
    case (Inl err)
    with Cons.prems(1) have "convert fmt gs fn ex e vd = Inl (ValueError d fname line)" by simp
    with Cons.prems(2) show ?thesis by auto
  next
    case (Inr v)
    with Cons.prems(1) have c: "convert_list fmt gs fn ex es vd = Inl (ValueError d fname line)"
      by (simp split: sum.splits)
    from Cons.prems(2)
    have "\<forall>e\<in>set es. \<forall>vd. convert fmt gs fn ex e vd = Inl (ValueError d fname line) \<longrightarrow>
             fname = fn \<and> line \<in> set (linenos e)"
      by simp
    from Cons.IH [OF c this] show ?thesis by simp
  qed
qed

lemma convert_dict_ValueError:
  "convert_dict fmt gs fn ex ks vs vd res = Inl (ValueError d fname line) \<Longrightarrow>
   \<forall>e\<in>set ks \<union> set vs. \<forall>vd. convert fmt gs fn ex e vd = Inl (ValueError d fname line) \<longrightarrow>
             fname = fn \<and> line \<in> set (linenos e) \<Longrightarrow>
   fname = fn \<and> line \<in> set (concat (map linenos ks)) \<union> set (concat (map linenos vs))"
proof (induction ks arbitrary: vs vd res)
  case Nil
  then show ?case by simp
next
  case (Cons k ks)
  show ?case
  proof (cases vs)
    case Nil
    with Cons.prems(1) show ?thesis by simp
  next
    case vs: (Cons v vs')
    show ?thesis
    proof (cases "convert fmt gs fn ex k vd")
      case (Inl err)
      with Cons.prems(1) vs have "convert fmt gs fn ex k vd = Inl (ValueError d fname line)" by simp
      with Cons.prems(2) show ?thesis by auto
    next
      case ck: (Inr c_k)
      show ?thesis
      proof (cases "convert fmt gs fn ex v vd")
        case (Inl err)
        with Cons.prems(1) vs ck have "convert fmt gs fn ex v vd = Inl (ValueError d fname line)"
          by simp
        with Cons.prems(2) vs show ?thesis by auto
      next
        case cv: (Inr c_v)
        with Cons.prems(1) vs ck
        have c: "convert_dict fmt gs fn ex ks vs' (if ex then dict_set vd c_k c_v else vd)
                (dict_set res c_k c_v) = Inl (ValueError d fname line)"
          by (simp split: if_splits)
        from Cons.prems(2) vs
        have "\<forall>e\<in>set ks \<union> set vs'. \<forall>vd.
                convert fmt gs fn ex e vd = Inl (ValueError d fname line) \<longrightarrow>
                fname = fn \<and> line \<in> set (linenos e)"
          by simp
        from Cons.IH [OF c this] vs show ?thesis by auto
      qed
    qed
  qed
qed

lemma convert_ValueError:
  "convert fmt gs fn ex node vd = Inl (ValueError d fname line) \<Longrightarrow>
     fname = fn \<and> line \<in> set (linenos node)"
proof (induction node arbitrary: vd)
  case (Str l s)
  then show ?case by simp
next
  case (Tuple l elts)
  from Tuple.prems
  have c: "convert_list fmt gs fn ex elts (dict_update vd allowed_names)
           = Inl (ValueError d fname line)"
    by (simp split: sum.splits)
  from convert_list_ValueError [OF c] Tuple.IH show ?case by auto
next
  case (List l elts)
  from List.prems
  have c: "convert_list fmt gs fn ex elts (dict_update vd allowed_names)
           = Inl (ValueError d fname line)"
    by (simp split: sum.splits)
  from convert_list_ValueError [OF c] List.IH show ?case by auto
next
  case (Dict l ks vs)
  from Dict.prems
  have c: "convert_dict fmt gs fn ex ks vs (dict_update vd allowed_names) []
           = Inl (ValueError d fname line)"
    by simp
  have "\<forall>e\<in>set ks \<union> set vs. \<forall>vd.
          convert fmt gs fn ex e vd = Inl (ValueError d fname line) \<longrightarrow>
          fname = fn \<and> line \<in> set (linenos e)"
    using Dict.IH by blast
  from convert_dict_ValueError [OF c this] show ?case by auto
next
  case (Name l ident)
  then show ?case by (simp split: option.splits)
next
  case (Call l func args kws starargs kwargs)
  show ?case
  proof (cases "convert_list fmt gs fn ex args (dict_update vd allowed_names)
                = Inl (ValueError d fname line)")
    case True
    from convert_list_ValueError [OF this] Call.IH(2) show ?thesis by auto
  next
    case False
    with Call.prems show ?thesis
      by (auto split: expr.splits if_splits sum.splits option.splits)
  qed
next
  case (BinOp l left op right)
  from BinOp.prems BinOp.IH(1) [of "dict_update vd allowed_names"]
    BinOp.IH(2) [of "dict_update vd allowed_names"]
  show ?case
    by (auto split: operator.splits sum.splits dest: py_add_error py_mod_error)
next
  case (BoolOp l op operands)
  show ?case
  proof (cases "length operands = 2")
    case True
    then obtain a b where ab: "operands = [a, b]"
      by (auto simp: numeral_2_eq_2 length_Suc_conv)
    from BoolOp.prems ab BoolOp.IH [of a "dict_update vd allowed_names"]
      BoolOp.IH [of b "dict_update vd allowed_names"]
    show ?thesis
      by (auto split: boolop.splits sum.splits if_splits)
  next
    case False
    with BoolOp.prems show ?thesis by (auto split: boolop.splits)
  qed
next
  case (UnaryOp l op operand)
  from UnaryOp.prems UnaryOp.IH [of "dict_update vd allowed_names"]
  show ?case by (auto split: unaryop.splits sum.splits)
next
  case (OtherExpr l kind)
  then show ?case by simp
qed

text \<open>
  The evaluation of \<^verbatim>\<open>"a" + ("b",)\<close> fails with the runtime's type error, which carries
  neither a file name nor a line.
\<close>

theorem evaluate_failures_counterexample:
  "gclient_eval no_formatter
     (Expr_node (BinOp (Some 1) (Str (Some 1) ''a'') Add_op (Tuple (Some 1) [Str (Some 1) ''b''])))
     no_functions ''DEPS'' False
   = Inl TypeError"
  by (simp add: env_simps)

text \<open>
  C5 (as the code has it). For every call expression: a callee that is no identifier, and
  keyword or variadic arguments, are failures naming the file and the line of the call;
  a call of a name \<open>f\<close> of the function table with positional arguments that evaluate
  returns what \<open>f\<close> returns on the evaluated arguments (a failure of \<open>f\<close> is passed on), so
  \<^verbatim>\<open>f("a", "b")\<close> gives the result of \<open>f\<close> on the two strings; a call of a name absent from the
  function table fails. Every failure that the evaluator raises itself carries the file
  name it was given and the line of a node of the expression; the failures of the
  runtime are passed on as they are.
\<close>

theorem call_expressions:
  "((\<forall>l' ident. func \<noteq> Name l' ident) \<longrightarrow>
      convert fmt gs fn ex (Call l func args kws sa ka) vd = Inl (ValueError CallFuncNotName fn l))
   \<and> (kws \<noteq> [] \<or> sa \<noteq> None \<or> ka \<noteq> None \<longrightarrow>
      convert fmt gs fn ex (Call l (Name l' f) args kws sa ka) vd
        = Inl (ValueError CallNotRegularArgs fn l))
   \<and> (gs f = Some g \<and>
       convert_list fmt gs fn ex args (dict_update vd allowed_names) = Inr argvals \<longrightarrow>
      convert fmt gs fn ex (Call l (Name l' f) args [] None None) vd
        = (case g argvals of Inl m \<Rightarrow> Inl (Raised m) | Inr r \<Rightarrow> Inr r))
   \<and> (gs f = Some g \<longrightarrow>
      convert fmt gs fn ex (Call l (Name l' f) [Str la ''a'', Str lb ''b''] [] None None) vd
        = (case g [VStr ''a'', VStr ''b''] of Inl m \<Rightarrow> Inl (Raised m) | Inr r \<Rightarrow> Inr r))
   \<and> (gs f = None \<longrightarrow>
      (\<exists>e. convert fmt gs fn ex (Call l (Name l' f) args kws sa ka) vd = Inl e))
   \<and> (convert fmt gs fn ex node vd = Inl (ValueError d fname line) \<longrightarrow>
      fname = fn \<and> line \<in> set (linenos node))"
proof (intro conjI impI)
  assume "\<forall>l' ident. func \<noteq> Name l' ident"
  then show "convert fmt gs fn ex (Call l func args kws sa ka) vd
             = Inl (ValueError CallFuncNotName fn l)"
    by (cases func) auto
next
  assume "gs f = None"
  then show "\<exists>e. convert fmt gs fn ex (Call l (Name l' f) args kws sa ka) vd = Inl e"
    by (auto split: sum.splits)
next
  assume "convert fmt gs fn ex node vd = Inl (ValueError d fname line)"
  then show "fname = fn" "line \<in> set (linenos node)"
    using convert_ValueError by blast+
qed auto

theorem call_expressions_witness:
  "convert no_formatter [''f'' \<mapsto> concat_strings] ''DEPS'' False
     (Call (Some 1) (Name (Some 1) ''f'') [Str (Some 1) ''a'', Str (Some 1) ''b''] [] None None) []
     = Inr (VStr ''ab'')
   \<and> convert no_formatter [''f'' \<mapsto> concat_strings] ''DEPS'' False
       (Call (Some 1) (Name (Some 1) ''f'') [] [(''k'', Str (Some 1) ''a'')] None None) []
     = Inl (ValueError CallNotRegularArgs ''DEPS'' (Some 1))
   \<and> convert no_formatter [''f'' \<mapsto> concat_strings] ''DEPS'' False
       (Call (Some 2) (OtherExpr (Some 2) ''Attribute'') [] [] None None) []
     = Inl (ValueError CallFuncNotName ''DEPS'' (Some 2))
   \<and> (\<exists>e. convert no_formatter [''f'' \<mapsto> concat_strings] ''DEPS'' False
       (Call (Some 1) (Name (Some 1) ''g'') [] [] None None) [] = Inl e)
   \<and> Some 3 \<in> set (linenos (List (Some 1) [Name (Some 3) ''a'']))"
proof -
  let ?gs = "[''f'' \<mapsto> concat_strings]"
  note T = call_expressions [where fmt = no_formatter and gs = ?gs and fn = "''DEPS''"
      and ex = False and vd = "[]" and la = "Some 1" and lb = "Some 1"]
  have 1: "convert no_formatter ?gs ''DEPS'' False
     (Call (Some 1) (Name (Some 1) ''f'') [Str (Some 1) ''a'', Str (Some 1) ''b''] [] None None) []
     = Inr (VStr ''ab'')"
    using T [where f = "''f''" and g = concat_strings and l = "Some 1" and l' = "Some 1"]
    by (simp add: concat_strings_def)
  have 2: "convert no_formatter ?gs ''DEPS'' False
       (Call (Some 1) (Name (Some 1) ''f'') [] [(''k'', Str (Some 1) ''a'')] None None) []
     = Inl (ValueError CallNotRegularArgs ''DEPS'' (Some 1))"
    using T [where kws = "[(''k'', Str (Some 1) ''a'')]" and sa = None and ka = None
        and f = "''f''" and l = "Some 1" and l' = "Some 1" and args = "[]"]
    by simp
  have 3: "convert no_formatter ?gs ''DEPS'' False
       (Call (Some 2) (OtherExpr (Some 2) ''Attribute'') [] [] None None) []
     = Inl (ValueError CallFuncNotName ''DEPS'' (Some 2))"
    using T [where func = "OtherExpr (Some 2) ''Attribute''" and l = "Some 2" and args = "[]"
        and kws = "[]" and sa = None and ka = None]
    by simp
  have 4: "\<exists>e. convert no_formatter ?gs ''DEPS'' False
       (Call (Some 1) (Name (Some 1) ''g'') [] [] None None) [] = Inl e"
    using T [where f = "''g''" and l = "Some 1" and l' = "Some 1" and args = "[]"
        and kws = "[]" and sa = None and ka = None]
    by simp
  have "convert no_formatter ?gs ''DEPS'' False (List (Some 1) [Name (Some 3) ''a'']) []
        = Inl (ValueError (InvalidName ''a'' allowed_names) ''DEPS'' (Some 3))"
    by (simp add: env_simps)
  with T [where node = "List (Some 1) [Name (Some 3) ''a'']" and d = "InvalidName ''a'' allowed_names"
        and fname = "''DEPS''" and line = "Some 3"]
  have 5: "Some 3 \<in> set (linenos (List (Some 1) [Name (Some 3) ''a'']))" by blast
  from 1 2 3 4 5 show ?thesis by blast
qed

end
